theory Spec2Isabelle
  imports Main
begin

section \<open>Python values, exceptions and the HTTP boundary\<close>

text \<open>
  The module \<^verbatim>\<open>utils.py\<close> talks to three things outside itself: the network (through
  \<^verbatim>\<open>requests.get\<close>), the process environment and console, and an SQLite file. Each is an
  explicit argument of the model. A Python \<^verbatim>\<open>str\<close> is modelled by its UTF-8 encoding, so
  that the delimiter of \<^verbatim>\<open>insert_data\<close>, which contains an em-dash, is five bytes.
\<close>

datatype transport_failure = Timeout | DNSFailure | ConnectionRefused | TLSError

datatype exn =
    RequestException transport_failure
  | JSONDecodeError
  | LocationParseError
  | KeyError string
  | TypeError
  | EOFError
  | SystemExit "int option"
  | OperationalError string

text \<open>
  A parsed JSON document, as \<^verbatim>\<open>response.json()\<close> hands it to the caller. An object is
  the parsed dictionary, kept as an association list.
\<close>

datatype json =
    JNull
  | JBool bool
  | JNum int
  | JStr string
  | JArr "json list"
  | JObj "(string \<times> json) list"

text \<open>
  A response carries its status code and its body. The body is kept as what
  \<^verbatim>\<open>response.json()\<close> makes of it: \<open>None\<close> when the body is not well-formed JSON.
\<close>

record response =
  status_code :: int
  body_json :: "json option"

text \<open>
  What \<^verbatim>\<open>requests.get(url, timeout=5)\<close> does for a URL: it returns a response or it
  raises. A transport-level failure is raised as \<open>RequestException failure\<close>. The library
  can also raise what is not a \<^verbatim>\<open>RequestException\<close>: for a host with an empty label, such
  as \<^verbatim>\<open>a..com\<close>, the \<^verbatim>\<open>LocationParseError\<close> of \<^verbatim>\<open>urllib3\<close> passes through it. The
  network is any function of this kind, so nothing is assumed about which exceptions occur.
\<close>

type_synonym network = "string \<Rightarrow> exn + response"

definition requests_get :: "network \<Rightarrow> string \<Rightarrow> exn + response" where
  "requests_get net url = net url"

definition response_json :: "response \<Rightarrow> exn + json" where
  "response_json resp =
     (case body_json resp of
        None \<Rightarrow> Inl JSONDecodeError
      | Some j \<Rightarrow> Inr j)"

text \<open>
  The exceptions that \<^verbatim>\<open>except requests.RequestException\<close> catches:
  \<^verbatim>\<open>requests.exceptions.JSONDecodeError\<close> is a subclass of it, \<^verbatim>\<open>LocationParseError\<close> and
  the exceptions of Python itself are not.
\<close>

fun is_RequestException :: "exn \<Rightarrow> bool" where
  "is_RequestException (RequestException _) = True"
| "is_RequestException JSONDecodeError = True"
| "is_RequestException _ = False"

text \<open>The status codes that HTTP calls successful: 200 to 299.\<close>

definition http_success_status :: "int \<Rightarrow> bool" where
  "http_success_status code \<longleftrightarrow> 200 \<le> code \<and> code < 300"

section \<open>check_url\<close>

text \<open>
  \<^verbatim>\<open>
  try:
      response = requests.get(url, timeout=5)
      if response.status_code == 200:
          return url
      else:
          return None
  except requests.RequestException:
      return None
  \<close>
  The result is \<open>Inr (Some url)\<close> for the URL, \<open>Inr None\<close> for Python's \<^verbatim>\<open>None\<close>, and
  \<open>Inl e\<close> for an exception that leaves the function.
\<close>

definition check_url :: "network \<Rightarrow> string \<Rightarrow> exn + string option" where
  "check_url net url =
     (case requests_get net url of
        Inr resp \<Rightarrow> (if status_code resp = 200 then Inr (Some url) else Inr None)
      | Inl e \<Rightarrow> (if is_RequestException e then Inr None else Inl e))"

section \<open>canlii_api_call\<close>

subsection \<open>Environment, console and the trace of effects\<close>

type_synonym environ = "string \<rightharpoonup> string"

text \<open>
  \<^verbatim>\<open>load_dotenv()\<close> adds the entries of the \<^verbatim>\<open>.env\<close> file to the process environment and
  leaves a variable that is already set as it is.
\<close>

definition load_dotenv :: "environ \<Rightarrow> environ \<Rightarrow> environ" where
  "load_dotenv dotenv env = dotenv ++ env"

text \<open>
  What a call does to the outside world, in order: lines printed, lines read from the
  console, URLs requested.
\<close>

datatype event = Print string | Input | Get string

text \<open>
  A computation takes the trace so far and returns a value or an exception, with the
  trace extended by what it did.
\<close>

type_synonym 'a io = "event list \<Rightarrow> (exn + 'a) \<times> event list"

definition io_return :: "'a \<Rightarrow> 'a io" where
  "io_return x tr = (Inr x, tr)"

definition io_bind :: "'a io \<Rightarrow> ('a \<Rightarrow> 'b io) \<Rightarrow> 'b io" where
  "io_bind m f tr =
     (case m tr of
        (Inl e, tr') \<Rightarrow> (Inl e, tr')
      | (Inr x, tr') \<Rightarrow> f x tr')"

definition bind_exn :: "exn + 'a \<Rightarrow> ('a \<Rightarrow> exn + 'b) \<Rightarrow> exn + 'b" where
  "bind_exn m f = (case m of Inl e \<Rightarrow> Inl e | Inr x \<Rightarrow> f x)"

text \<open>\<^verbatim>\<open>print(...)\<close>, and \<^verbatim>\<open>input()\<close>, which raises \<^verbatim>\<open>EOFError\<close> when the console is closed.\<close>

definition print :: "string \<Rightarrow> unit io" where
  "print s tr = (Inr (), tr @ [Print s])"

definition input :: "string list \<Rightarrow> string io" where
  "input console tr =
     (case console of
        [] \<Rightarrow> (Inl EOFError, tr @ [Input])
      | line # _ \<Rightarrow> (Inr line, tr @ [Input]))"

text \<open>
  \<^verbatim>\<open>sys.exit()\<close> with no argument raises \<^verbatim>\<open>SystemExit(None)\<close>. When nothing catches it the
  interpreter ends the process with the status below: zero for \<^verbatim>\<open>None\<close>, the number itself
  for a number.
\<close>

definition sys_exit :: "'a io" where
  "sys_exit tr = (Inl (SystemExit None), tr)"

fun exit_status :: "int option \<Rightarrow> int" where
  "exit_status None = 0"
| "exit_status (Some n) = n"

text \<open>
  Lines 58 to 65:
  \<^verbatim>\<open>
  load_dotenv()
  if os.getenv("CANLII_API_KEY") is None:
      print("Please enter your CanLII API key (or blank input to exit):")
      API_KEY = input()
      if API_KEY == "":
          sys.exit()
  else:
      API_KEY = os.getenv("CANLII_API_KEY")
  \<close>
\<close>

definition api_key_prompt :: string where
  "api_key_prompt = ''Please enter your CanLII API key (or blank input to exit):''"

definition resolve_api_key :: "environ \<Rightarrow> environ \<Rightarrow> string list \<Rightarrow> string io" where
  "resolve_api_key dotenv environ console =
     (let env = load_dotenv dotenv environ in
      case env ''CANLII_API_KEY'' of
        None \<Rightarrow>
          io_bind (print api_key_prompt) (\<lambda>_.
          io_bind (input console) (\<lambda>API_KEY.
          if API_KEY = [] then sys_exit else io_return API_KEY))
      | Some API_KEY \<Rightarrow> io_return API_KEY)"

subsection \<open>The five facet blocks\<close>

record api_args =
  case_id :: "string option"
  database_id :: "string option"
  legislation_id :: "string option"
  language :: string
  decision_metadata :: bool
  legislation_metadata :: bool
  cases_cited :: bool
  cases_citing :: bool
  canlii_database :: bool

text \<open>An f-string field prints \<^verbatim>\<open>None\<close> as the four letters.\<close>

fun fmt :: "string option \<Rightarrow> string" where
  "fmt None = ''None''"
| "fmt (Some s) = s"

definition metadata_url :: "api_args \<Rightarrow> string \<Rightarrow> string" where
  "metadata_url args API_KEY =
     ''https://api.canlii.org/v1/caseBrowse/'' @ language args @ ''/'' @ fmt (database_id args)
       @ ''/'' @ fmt (case_id args) @ ''/?api_key='' @ API_KEY"

definition cited_cases_url :: "api_args \<Rightarrow> string \<Rightarrow> string" where
  "cited_cases_url args API_KEY =
     ''https://api.canlii.org/v1/caseCitator/'' @ language args @ ''/'' @ fmt (database_id args)
       @ ''/'' @ fmt (case_id args) @ ''/citedCases?api_key='' @ API_KEY"

definition citing_cases_url :: "api_args \<Rightarrow> string \<Rightarrow> string" where
  "citing_cases_url args API_KEY =
     ''https://api.canlii.org/v1/caseCitator/'' @ language args @ ''/'' @ fmt (database_id args)
       @ ''/'' @ fmt (case_id args) @ ''/citingCases?api_key='' @ API_KEY"

definition legislation_url :: "api_args \<Rightarrow> string \<Rightarrow> string" where
  "legislation_url args API_KEY =
     ''https://api.canlii.org/v1/legislationBrowse/'' @ language args @ ''/''
       @ fmt (database_id args) @ ''/'' @ fmt (legislation_id args) @ ''/?api_key='' @ API_KEY"

definition database_url :: "api_args \<Rightarrow> string \<Rightarrow> string" where
  "database_url args API_KEY =
     ''https://api.canlii.org/v1/caseBrowse/'' @ language args @ ''/?api_key='' @ API_KEY"

text \<open>
  \<^verbatim>\<open>response = requests.get(url, timeout=5)\<close> followed by \<^verbatim>\<open>response.json()\<close>. The status
  code of the response is not read.
\<close>

definition get_json :: "network \<Rightarrow> string \<Rightarrow> json io" where
  "get_json net url tr =
     (case requests_get net url of
        Inl e \<Rightarrow> (Inl e, tr @ [Get url])
      | Inr resp \<Rightarrow> (response_json resp, tr @ [Get url]))"

text \<open>
  \<^verbatim>\<open>value[key]\<close> on a parsed document: a dictionary without the key raises \<^verbatim>\<open>KeyError\<close>,
  anything that is not a dictionary raises \<^verbatim>\<open>TypeError\<close> for a string subscript.
\<close>

fun getitem :: "json \<Rightarrow> string \<Rightarrow> exn + json" where
  "getitem (JObj kvs) key =
     (case map_of kvs key of
        None \<Rightarrow> Inl (KeyError key)
      | Some v \<Rightarrow> Inr v)"
| "getitem _ key = Inl TypeError"

type_synonym info = "string \<rightharpoonup> json"

text \<open>Lines 69 to 78.\<close>

definition decision_metadata_block :: "network \<Rightarrow> api_args \<Rightarrow> string \<Rightarrow> info \<Rightarrow> info io" where
  "decision_metadata_block net args API_KEY metadata_api_info =
     io_bind (get_json net (metadata_url args API_KEY)) (\<lambda>case_metadata tr.
       (bind_exn (getitem case_metadata ''url'') (\<lambda>v1.
        bind_exn (getitem case_metadata ''language'') (\<lambda>v2.
        bind_exn (getitem case_metadata ''docketNumber'') (\<lambda>v3.
        bind_exn (getitem case_metadata ''decisionDate'') (\<lambda>v4.
        bind_exn (getitem case_metadata ''keywords'') (\<lambda>v5.
        bind_exn (getitem case_metadata ''topics'') (\<lambda>v6.
        Inr (metadata_api_info
               (''short_url'' \<mapsto> v1, ''language'' \<mapsto> v2, ''docket_number'' \<mapsto> v3,
                ''decision_date'' \<mapsto> v4, ''keywords'' \<mapsto> v5, ''categories'' \<mapsto> v6)))))))),
        tr))"

text \<open>Lines 80 to 84.\<close>

definition cases_cited_block :: "network \<Rightarrow> api_args \<Rightarrow> string \<Rightarrow> info \<Rightarrow> info io" where
  "cases_cited_block net args API_KEY metadata_api_info =
     io_bind (get_json net (cited_cases_url args API_KEY)) (\<lambda>cited_cases.
       io_return (metadata_api_info(''cited_cases'' \<mapsto> cited_cases)))"

text \<open>Lines 86 to 90.\<close>

definition cases_citing_block :: "network \<Rightarrow> api_args \<Rightarrow> string \<Rightarrow> info \<Rightarrow> info io" where
  "cases_citing_block net args API_KEY metadata_api_info =
     io_bind (get_json net (citing_cases_url args API_KEY)) (\<lambda>citing_cases.
       io_return (metadata_api_info(''citing_cases'' \<mapsto> citing_cases)))"

text \<open>Lines 93 to 101.\<close>

definition legislation_metadata_block :: "network \<Rightarrow> api_args \<Rightarrow> string \<Rightarrow> info \<Rightarrow> info io" where
  "legislation_metadata_block net args API_KEY metadata_api_info =
     io_bind (get_json net (legislation_url args API_KEY)) (\<lambda>legislation tr.
       (bind_exn (getitem legislation ''databaseId'') (\<lambda>v1.
        bind_exn (getitem legislation ''legislationId'') (\<lambda>v2.
        bind_exn (getitem legislation ''title'') (\<lambda>v3.
        bind_exn (getitem legislation ''type'') (\<lambda>v4.
        bind_exn (getitem legislation ''citation'') (\<lambda>v5.
        Inr (metadata_api_info
               (''database_id'' \<mapsto> v1, ''legislation_id'' \<mapsto> v2, ''title'' \<mapsto> v3,
                ''type'' \<mapsto> v4, ''citation'' \<mapsto> v5))))))),
        tr))"

text \<open>Lines 103 to 107.\<close>

definition canlii_database_block :: "network \<Rightarrow> api_args \<Rightarrow> string \<Rightarrow> info \<Rightarrow> info io" where
  "canlii_database_block net args API_KEY metadata_api_info =
     io_bind (get_json net (database_url args API_KEY)) (\<lambda>database_info.
       io_return (metadata_api_info(''database'' \<mapsto> database_info)))"

text \<open>
  The function: the credential, then the five blocks in the order of the source, each
  under its flag, on the dictionary that starts empty. The result pairs what the call
  returns or raises with the trace of what it did.
\<close>

definition canlii_api_call ::
  "environ \<Rightarrow> environ \<Rightarrow> string list \<Rightarrow> network \<Rightarrow> api_args \<Rightarrow> (exn + info) \<times> event list" where
  "canlii_api_call dotenv environ console net args =
     io_bind (resolve_api_key dotenv environ console) (\<lambda>API_KEY.
     io_bind (if decision_metadata args
              then decision_metadata_block net args API_KEY Map.empty
              else io_return Map.empty) (\<lambda>info1.
     io_bind (if cases_cited args
              then cases_cited_block net args API_KEY info1
              else io_return info1) (\<lambda>info2.
     io_bind (if cases_citing args
              then cases_citing_block net args API_KEY info2
              else io_return info2) (\<lambda>info3.
     io_bind (if legislation_metadata args
              then legislation_metadata_block net args API_KEY info3
              else io_return info3) (\<lambda>info4.
     if canlii_database args
     then canlii_database_block net args API_KEY info4
     else io_return info4))))) []"

section \<open>The SQLite store\<close>

subsection \<open>Values, rows and tables\<close>

text \<open>
  The records handed to \<^verbatim>\<open>insert_data\<close> are dictionaries from field names to optional
  strings. \<^verbatim>\<open>sqlite3\<close> binds \<^verbatim>\<open>None\<close> as \<^verbatim>\<open>NULL\<close> and a \<^verbatim>\<open>str\<close> as \<^verbatim>\<open>TEXT\<close>.
\<close>

datatype pyval = PyNone | PyStr string

datatype sqlval = Null | Text string

fun adapt :: "pyval \<Rightarrow> sqlval" where
  "adapt PyNone = Null"
| "adapt (PyStr s) = Text s"

type_synonym data = "string \<rightharpoonup> pyval"

text \<open>
  A row of \<^verbatim>\<open>results\<close> lists its columns by name, in the order of the schema. A row of
  \<^verbatim>\<open>keywords\<close> or \<^verbatim>\<open>categories\<close> is the pair of its two columns. A table that has not been
  created is \<open>None\<close>. Tables that exist are taken to have the schema that
  \<^verbatim>\<open>create_citation_database\<close> gives them.
\<close>

type_synonym row = "(string \<times> sqlval) list"

record database =
  results_table :: "row list option"
  keywords_table :: "(sqlval \<times> sqlval) list option"
  categories_table :: "(sqlval \<times> sqlval) list option"

text \<open>
  The file \<^verbatim>\<open>results.db\<close> with what has been committed to it, and the number of connections
  to it that are open.
\<close>

record world =
  db :: database
  open_connections :: nat

definition connect :: "world \<Rightarrow> world" where
  "connect w = w\<lparr>open_connections := open_connections w + 1\<rparr>"

definition commit :: "database \<Rightarrow> world \<Rightarrow> world" where
  "commit d w = w\<lparr>db := d\<rparr>"

definition close :: "world \<Rightarrow> world" where
  "close w = w\<lparr>open_connections := open_connections w - 1\<rparr>"

subsection \<open>create_citation_database\<close>

text \<open>The sixteen columns of \<^verbatim>\<open>results\<close>, lines 119 to 134.\<close>

definition result_columns :: "string list" where
  "result_columns =
     [''uid'', ''style_of_cause'', ''atomic_citation'', ''citation_type'', ''scr_citation'',
      ''year'', ''court'', ''decision_number'', ''jurisdiction'', ''court_name'', ''court_level'',
      ''long_url'', ''short_url'', ''language'', ''docket_number'', ''decision_date'']"

text \<open>\<^verbatim>\<open>CREATE TABLE IF NOT EXISTS\<close>: a table that exists is left as it is.\<close>

definition create_table_if_not_exists :: "'a list option \<Rightarrow> 'a list option" where
  "create_table_if_not_exists t = (case t of None \<Rightarrow> Some [] | Some rows \<Rightarrow> Some rows)"

definition create_results_table :: "database \<Rightarrow> exn + database" where
  "create_results_table d = Inr (d\<lparr>results_table := create_table_if_not_exists (results_table d)\<rparr>)"

definition create_keywords_table :: "database \<Rightarrow> exn + database" where
  "create_keywords_table d = Inr (d\<lparr>keywords_table := create_table_if_not_exists (keywords_table d)\<rparr>)"

definition create_categories_table :: "database \<Rightarrow> exn + database" where
  "create_categories_table d = Inr (d\<lparr>categories_table := create_table_if_not_exists (categories_table d)\<rparr>)"

text \<open>
  Lines 112 to 157: connect, three statements, commit, close. An exception would leave
  the function before \<^verbatim>\<open>commit\<close> and \<^verbatim>\<open>close\<close>.
\<close>

definition create_citation_database :: "world \<Rightarrow> (exn + unit) \<times> world" where
  "create_citation_database w =
     (let conn = connect w in
      case bind_exn (create_results_table (db conn)) (\<lambda>d1.
           bind_exn (create_keywords_table d1) (\<lambda>d2.
           create_categories_table d2)) of
        Inl e \<Rightarrow> (Inl e, conn)
      | Inr d \<Rightarrow> (Inr (), close (commit d conn)))"

subsection \<open>insert_data\<close>

text \<open>
  The column list of both \<^verbatim>\<open>INSERT\<close> statements (lines 168 to 170 and 185 to 187) and the
  keys of both parameter tuples (lines 179 to 181 and 189 to 191), in the order written.
\<close>

definition insert_columns :: "string list" where
  "insert_columns =
     [''uid'', ''style_of_cause'', ''atomic_citation'', ''citation_type'', ''scr_citation'',
      ''year'', ''court'', ''decision_number'', ''jurisdiction'', ''court_name'', ''court_level'',
      ''long_url'', ''short_url'', ''language'', ''docket_number'', ''decision_date'']"

definition param_keys :: "string list" where
  "param_keys =
     [''uid'', ''style_of_cause'', ''atomic_citation'', ''citation_type'', ''scr_citation'',
      ''year'', ''court'', ''decision_number'', ''jurisdiction'', ''court_name'', ''court_level'',
      ''long_url'', ''short_url'', ''language'', ''docket_number'', ''decision_date'']"

text \<open>The columns assigned by \<^verbatim>\<open>DO UPDATE SET\<close>, lines 173 to 178.\<close>

definition update_columns :: "string list" where
  "update_columns =
     [''style_of_cause'', ''atomic_citation'', ''citation_type'', ''scr_citation'',
      ''year'', ''court'', ''decision_number'', ''jurisdiction'', ''court_name'', ''court_level'',
      ''long_url'', ''short_url'', ''language'', ''docket_number'', ''decision_date'']"

text \<open>\<^verbatim>\<open>data[key]\<close>, and a tuple of such lookups evaluated from left to right.\<close>

definition data_getitem :: "data \<Rightarrow> string \<Rightarrow> exn + pyval" where
  "data_getitem data key = (case data key of None \<Rightarrow> Inl (KeyError key) | Some v \<Rightarrow> Inr v)"

fun data_getitems :: "data \<Rightarrow> string list \<Rightarrow> exn + pyval list" where
  "data_getitems data [] = Inr []"
| "data_getitems data (key # keys) =
     bind_exn (data_getitem data key) (\<lambda>v.
     bind_exn (data_getitems data keys) (\<lambda>vs. Inr (v # vs)))"

definition column :: "row \<Rightarrow> string \<Rightarrow> sqlval" where
  "column r c = (case map_of r c of None \<Rightarrow> Null | Some v \<Rightarrow> v)"

text \<open>
  The row that \<^verbatim>\<open>INSERT INTO results (cols) VALUES (?, ...)\<close> builds: each column of the
  table takes the parameter at its position in the column list, \<^verbatim>\<open>NULL\<close> when not listed.
\<close>

definition make_row :: "string list \<Rightarrow> sqlval list \<Rightarrow> row" where
  "make_row cols vals =
     map (\<lambda>c. (c, case map_of (zip cols vals) c of None \<Rightarrow> Null | Some v \<Rightarrow> v)) result_columns"

text \<open>
  \<^verbatim>\<open>uid TEXT PRIMARY KEY\<close>: a new row conflicts with a stored row of the same \<^verbatim>\<open>uid\<close>. In
  SQLite a \<^verbatim>\<open>NULL\<close> in such a column conflicts with nothing.
\<close>

definition uid_conflict :: "row \<Rightarrow> row \<Rightarrow> bool" where
  "uid_conflict new old \<longleftrightarrow> column new ''uid'' \<noteq> Null \<and> column old ''uid'' = column new ''uid''"

definition no_such_table :: "string \<Rightarrow> exn" where
  "no_such_table name = OperationalError (''no such table: '' @ name)"

text \<open>
  \<^verbatim>\<open>INSERT OR IGNORE INTO results ...\<close>, lines 184 to 191: on a conflict the statement
  does nothing, otherwise the row is added.
\<close>

definition insert_or_ignore_rows :: "row \<Rightarrow> row list \<Rightarrow> row list" where
  "insert_or_ignore_rows new rows =
     (if list_ex (uid_conflict new) rows then rows else rows @ [new])"

definition insert_or_ignore_results :: "sqlval list \<Rightarrow> database \<Rightarrow> exn + database" where
  "insert_or_ignore_results params d =
     (case results_table d of
        None \<Rightarrow> Inl (no_such_table ''results'')
      | Some rows \<Rightarrow>
          Inr (d\<lparr>results_table :=
                 Some (insert_or_ignore_rows (make_row insert_columns params) rows)\<rparr>))"

text \<open>
  \<^verbatim>\<open>INSERT INTO results ... ON CONFLICT(uid) DO UPDATE SET c = excluded.c, ...\<close>, lines 167
  to 181: on a conflict the conflicting row takes the new row's value in each column of
  the \<^verbatim>\<open>SET\<close> list and keeps its own in every other column; otherwise the row is added.
\<close>

definition do_update_set :: "row \<Rightarrow> row \<Rightarrow> row" where
  "do_update_set excluded old =
     map (\<lambda>c. (c, if c \<in> set update_columns then column excluded c else column old c))
       result_columns"

definition insert_or_update_rows :: "row \<Rightarrow> row list \<Rightarrow> row list" where
  "insert_or_update_rows new rows =
     (if list_ex (uid_conflict new) rows
      then map (\<lambda>old. if uid_conflict new old then do_update_set new old else old) rows
      else rows @ [new])"

definition insert_on_conflict_update :: "sqlval list \<Rightarrow> database \<Rightarrow> exn + database" where
  "insert_on_conflict_update params d =
     (case results_table d of
        None \<Rightarrow> Inl (no_such_table ''results'')
      | Some rows \<Rightarrow>
          Inr (d\<lparr>results_table :=
                 Some (insert_or_update_rows (make_row insert_columns params) rows)\<rparr>))"

text \<open>
  \<^verbatim>\<open>INSERT OR IGNORE INTO keywords (uid, keyword) VALUES (?, ?)\<close> and the same for
  \<^verbatim>\<open>categories\<close>. Neither table has a primary key or a unique constraint, so no row can
  conflict and there is nothing for \<^verbatim>\<open>OR IGNORE\<close> to skip: the row is added.
\<close>

definition insert_or_ignore_keyword :: "sqlval \<times> sqlval \<Rightarrow> database \<Rightarrow> exn + database" where
  "insert_or_ignore_keyword r d =
     (case keywords_table d of
        None \<Rightarrow> Inl (no_such_table ''keywords'')
      | Some rows \<Rightarrow> Inr (d\<lparr>keywords_table := Some (rows @ [r])\<rparr>))"

definition insert_or_ignore_category :: "sqlval \<times> sqlval \<Rightarrow> database \<Rightarrow> exn + database" where
  "insert_or_ignore_category r d =
     (case categories_table d of
        None \<Rightarrow> Inl (no_such_table ''categories'')
      | Some rows \<Rightarrow> Inr (d\<lparr>categories_table := Some (rows @ [r])\<rparr>))"

text \<open>
  The delimiter \<^verbatim>\<open>' - '\<close>: a space, the three bytes of the em-dash U+2014, a space.
\<close>

definition delimiter :: string where
  "delimiter = [CHR '' '', CHR 0xE2, CHR 0x80, CHR 0x94, CHR '' '']"

text \<open>
  \<^verbatim>\<open>s.split(sep)\<close> for a separator that is not empty: the pieces between the occurrences of
  the separator, found from the left and not overlapping. The second argument collects
  the current piece in reverse.
\<close>

fun split_from :: "string \<Rightarrow> string \<Rightarrow> string \<Rightarrow> string list" where
  "split_from sep piece [] = [rev piece]"
| "split_from sep piece (c # cs) =
     (if sep \<noteq> [] \<and> take (length sep) (c # cs) = sep
      then rev piece # split_from sep [] (drop (length sep) (c # cs))
      else split_from sep (c # piece) cs)"

definition str_split :: "string \<Rightarrow> string \<Rightarrow> string list" where
  "str_split s sep = split_from sep [] s"

text \<open>The two loops, lines 196 to 197 and 201 to 202.\<close>

fun insert_keywords :: "data \<Rightarrow> string list \<Rightarrow> database \<Rightarrow> exn + database" where
  "insert_keywords data [] d = Inr d"
| "insert_keywords data (keyword # rest) d =
     bind_exn (data_getitem data ''uid'') (\<lambda>uid.
     bind_exn (insert_or_ignore_keyword (adapt uid, Text keyword) d) (\<lambda>d'.
     insert_keywords data rest d'))"

fun insert_categories :: "data \<Rightarrow> string list \<Rightarrow> database \<Rightarrow> exn + database" where
  "insert_categories data [] d = Inr d"
| "insert_categories data (category # rest) d =
     bind_exn (data_getitem data ''uid'') (\<lambda>uid.
     bind_exn (insert_or_ignore_category (adapt uid, Text category) d) (\<lambda>d'.
     insert_categories data rest d'))"

text \<open>
  Lines 165 to 191: the parameter tuple is built first, then the statement of the chosen
  policy runs.
\<close>

definition insert_results_row :: "data \<Rightarrow> bool \<Rightarrow> database \<Rightarrow> exn + database" where
  "insert_results_row data update_existing d =
     bind_exn (data_getitems data param_keys) (\<lambda>params.
       if update_existing
       then insert_on_conflict_update (map adapt params) d
       else insert_or_ignore_results (map adapt params) d)"

text \<open>
  Lines 194 to 197 and 199 to 202. \<^verbatim>\<open>data.get(key)\<close> is false for a missing key, for
  \<^verbatim>\<open>None\<close> and for the empty string.
\<close>

definition insert_keyword_rows :: "data \<Rightarrow> database \<Rightarrow> exn + database" where
  "insert_keyword_rows data d =
     (case data ''keywords'' of
        Some (PyStr s) \<Rightarrow>
          if s \<noteq> [] then insert_keywords data (str_split s delimiter) d else Inr d
      | _ \<Rightarrow> Inr d)"

definition insert_category_rows :: "data \<Rightarrow> database \<Rightarrow> exn + database" where
  "insert_category_rows data d =
     (case data ''categories'' of
        Some (PyStr s) \<Rightarrow>
          if s \<noteq> [] then insert_categories data (str_split s delimiter) d else Inr d
      | _ \<Rightarrow> Inr d)"

text \<open>The statements between \<^verbatim>\<open>connect\<close> and \<^verbatim>\<open>commit\<close>, in order.\<close>

definition insert_statements :: "data \<Rightarrow> bool \<Rightarrow> database \<Rightarrow> exn + database" where
  "insert_statements data update_existing d =
     bind_exn (insert_results_row data update_existing d) (\<lambda>d1.
     bind_exn (insert_keyword_rows data d1) (\<lambda>d2.
     insert_category_rows data d2))"

text \<open>
  Lines 161 to 205: connect, the statements, commit, close. An exception leaves the
  function where it is raised: nothing is committed and \<^verbatim>\<open>conn.close()\<close> is not reached.
\<close>

definition insert_data :: "data \<Rightarrow> bool \<Rightarrow> world \<Rightarrow> (exn + unit) \<times> world" where
  "insert_data data update_existing w =
     (let conn = connect w in
      case insert_statements data update_existing (db conn) of
        Inl e \<Rightarrow> (Inl e, conn)
      | Inr d \<Rightarrow> (Inr (), close (commit d conn)))"

section \<open>The facets of canlii_api_call, by name\<close>

text \<open>
  The five \<^verbatim>\<open>if\<close> blocks of \<^verbatim>\<open>canlii_api_call\<close> indexed by a datatype, with the flag, the
  URL, the block and the result keys of each, and the blocks run from a list. The function
  is shown below to be \<open>run_facets\<close> on the five facets in the order of the source.
\<close>

datatype facet = DecisionMetadata | CasesCited | CasesCiting | LegislationMetadata | CanliiDatabase

fun requested :: "api_args \<Rightarrow> facet \<Rightarrow> bool" where
  "requested args DecisionMetadata = decision_metadata args"
| "requested args CasesCited = cases_cited args"
| "requested args CasesCiting = cases_citing args"
| "requested args LegislationMetadata = legislation_metadata args"
| "requested args CanliiDatabase = canlii_database args"

fun facet_url :: "api_args \<Rightarrow> string \<Rightarrow> facet \<Rightarrow> string" where
  "facet_url args k DecisionMetadata = metadata_url args k"
| "facet_url args k CasesCited = cited_cases_url args k"
| "facet_url args k CasesCiting = citing_cases_url args k"
| "facet_url args k LegislationMetadata = legislation_url args k"
| "facet_url args k CanliiDatabase = database_url args k"

fun facet_block :: "facet \<Rightarrow> network \<Rightarrow> api_args \<Rightarrow> string \<Rightarrow> info \<Rightarrow> info io" where
  "facet_block DecisionMetadata = decision_metadata_block"
| "facet_block CasesCited = cases_cited_block"
| "facet_block CasesCiting = cases_citing_block"
| "facet_block LegislationMetadata = legislation_metadata_block"
| "facet_block CanliiDatabase = canlii_database_block"




definition facets_in_order :: "facet list" where
  "facets_in_order = [DecisionMetadata, CasesCited, CasesCiting, LegislationMetadata, CanliiDatabase]"

fun run_facets :: "facet list \<Rightarrow> network \<Rightarrow> api_args \<Rightarrow> string \<Rightarrow> info \<Rightarrow> info io" where
  "run_facets [] net args k info = io_return info"
| "run_facets (f # fs) net args k info =
     io_bind (if requested args f then facet_block f net args k info else io_return info)
       (run_facets fs net args k)"


section \<open>Vocabulary for the store\<close>

text \<open>
  \<open>row_of\<close> is the row that holds, under each column of \<^verbatim>\<open>results\<close>, the value of the
  record under the key of the same name. \<open>truthy\<close> is Python's truth value of
  \<^verbatim>\<open>data.get(key)\<close> and \<open>tokens\<close> the pieces that the loops of \<^verbatim>\<open>insert_data\<close> run over.
  \<open>table_rows\<close> reads a table that may not exist, \<open>rows_with_uid\<close> selects the rows of
  one \<^verbatim>\<open>uid\<close>, \<open>differing_columns\<close> lists the columns in which two rows differ, and
  \<open>create_times n\<close> is the store after \<open>n\<close> calls of \<^verbatim>\<open>create_citation_database\<close>.
\<close>

definition row_of :: "data \<Rightarrow> row" where
  "row_of data = map (\<lambda>c. (c, case data c of None \<Rightarrow> Null | Some v \<Rightarrow> adapt v)) result_columns"

fun truthy :: "pyval option \<Rightarrow> bool" where
  "truthy (Some (PyStr s)) = (s \<noteq> [])"
| "truthy _ = False"

definition table_rows :: "'a list option \<Rightarrow> 'a list" where
  "table_rows t = (case t of None \<Rightarrow> [] | Some rows \<Rightarrow> rows)"

fun create_times :: "nat \<Rightarrow> world \<Rightarrow> world" where
  "create_times 0 w = w"
| "create_times (Suc n) w = snd (create_citation_database (create_times n w))"

definition rows_with_uid :: "string \<Rightarrow> row list \<Rightarrow> row list" where
  "rows_with_uid u rows = filter (\<lambda>r. column r ''uid'' = Text u) rows"

definition differing_columns :: "row \<Rightarrow> row \<Rightarrow> string list" where
  "differing_columns r r' = filter (\<lambda>c. column r c \<noteq> column r' c) result_columns"

fun tokens :: "pyval option \<Rightarrow> string list" where
  "tokens (Some (PyStr s)) = (if s = [] then [] else str_split s delimiter)"
| "tokens _ = []"

section \<open>Concrete inputs\<close>

definition no_environ :: environ where
  "no_environ = Map.empty"

definition environ_with_key :: environ where
  "environ_with_key = [''CANLII_API_KEY'' \<mapsto> ''secret'']"

definition not_found_net :: network where
  "not_found_net url =
     Inr \<lparr>status_code = 404, body_json = Some (JObj [(''error'', JStr ''not found'')])\<rparr>"

definition ok_net :: network where
  "ok_net url = Inr \<lparr>status_code = 200, body_json = None\<rparr>"

definition no_content_net :: network where
  "no_content_net url = Inr \<lparr>status_code = 204, body_json = None\<rparr>"

definition timeout_net :: network where
  "timeout_net url = Inl (RequestException Timeout)"

definition bad_host_net :: network where
  "bad_host_net url = Inl LocationParseError"

definition html_net :: network where
  "html_net url = Inr \<lparr>status_code = 200, body_json = None\<rparr>"

definition cited_only :: api_args where
  "cited_only =
     \<lparr>case_id = Some ''2021onca123'', database_id = Some ''onca'', legislation_id = None,
      language = ''en'', decision_metadata = False, legislation_metadata = False,
      cases_cited = True, cases_citing = False, canlii_database = False\<rparr>"



definition blank_console :: "string list" where
  "blank_console = [[]]"


definition fresh_world :: world where
  "fresh_world =
     \<lparr>db = \<lparr>results_table = None, keywords_table = None, categories_table = None\<rparr>,
      open_connections = 0\<rparr>"

definition scalar_record :: data where
  "scalar_record =
     [''uid'' \<mapsto> PyStr ''2021onca123'', ''style_of_cause'' \<mapsto> PyStr ''R v Doe'',
      ''atomic_citation'' \<mapsto> PyStr ''2021 ONCA 123'', ''citation_type'' \<mapsto> PyStr ''neutral'',
      ''scr_citation'' \<mapsto> PyNone, ''year'' \<mapsto> PyStr ''2021'', ''court'' \<mapsto> PyStr ''onca'',
      ''decision_number'' \<mapsto> PyStr ''123'', ''jurisdiction'' \<mapsto> PyStr ''on'',
      ''court_name'' \<mapsto> PyStr ''Court of Appeal for Ontario'', ''court_level'' \<mapsto> PyStr ''appellate'',
      ''long_url'' \<mapsto> PyStr ''https://www.canlii.org/en/on/onca/doc/2021/2021onca123/2021onca123.html'',
      ''short_url'' \<mapsto> PyStr ''https://short/x'', ''language'' \<mapsto> PyStr ''en'',
      ''docket_number'' \<mapsto> PyStr ''C12345'', ''decision_date'' \<mapsto> PyStr ''2021-03-01'']"

definition fraud_record :: data where
  "fraud_record =
     scalar_record
       (''keywords'' \<mapsto> PyStr (''fraud'' @ delimiter @ ''negligence'' @ delimiter @ ''appeal''),
        ''categories'' \<mapsto> PyStr (''criminal'' @ delimiter @ ''evidence''))"

definition revised_record :: data where
  "revised_record = scalar_record(''year'' \<mapsto> PyStr ''2022'', ''court'' \<mapsto> PyNone)"

definition yearless_record :: data where
  "yearless_record = scalar_record(''year'' := None)"

definition changed_record :: data where
  "changed_record =
     [''uid'' \<mapsto> PyStr ''2021onca123'', ''style_of_cause'' \<mapsto> PyStr ''R v Roe'',
      ''atomic_citation'' \<mapsto> PyStr ''2021 ONCA 124'', ''citation_type'' \<mapsto> PyStr ''canlii'',
      ''scr_citation'' \<mapsto> PyStr ''[2021] 1 SCR 1'', ''year'' \<mapsto> PyStr ''2022'',
      ''court'' \<mapsto> PyStr ''onsc'', ''decision_number'' \<mapsto> PyStr ''124'',
      ''jurisdiction'' \<mapsto> PyStr ''ca'', ''court_name'' \<mapsto> PyStr ''Superior Court of Justice'',
      ''court_level'' \<mapsto> PyStr ''trial'', ''long_url'' \<mapsto> PyStr ''https://www.canlii.org/x'',
      ''short_url'' \<mapsto> PyStr ''https://short/y'', ''language'' \<mapsto> PyStr ''fr'',
      ''docket_number'' \<mapsto> PyStr ''C54321'', ''decision_date'' \<mapsto> PyStr ''2022-04-02'']"

definition initialised_world :: world where
  "initialised_world = snd (create_citation_database fresh_world)"

definition once_world :: world where
  "once_world = snd (insert_data fraud_record False initialised_world)"

definition twice_world :: world where
  "twice_world = snd (insert_data fraud_record False once_world)"

section \<open>Properties of check_url\<close>

text \<open>
  Claim C5, as amended. For every network and every URL, \<^verbatim>\<open>check_url\<close> returns the URL
  itself exactly when \<^verbatim>\<open>requests.get\<close> returns a response with status code 200. It
  returns \<^verbatim>\<open>None\<close> (the spec's "unresolvable") exactly when the response has any other
  status code, other successful codes included, or when \<^verbatim>\<open>requests.get\<close> raises a
  \<^verbatim>\<open>RequestException\<close>; every transport-level failure (timeout, DNS failure, connection
  refused, TLS error) is one, so the function never raises on a network failure. It raises
  exactly when \<^verbatim>\<open>requests.get\<close> raises what is not a \<^verbatim>\<open>RequestException\<close>, and then that
  exception.
\<close>

theorem check_url_total:
  "(check_url net url = Inr (Some url)
      \<longleftrightarrow> (\<exists>resp. net url = Inr resp \<and> status_code resp = 200))
   \<and> (check_url net url = Inr None
      \<longleftrightarrow> (\<exists>e. net url = Inl e \<and> is_RequestException e)
          \<or> (\<exists>resp. net url = Inr resp \<and> status_code resp \<noteq> 200))
   \<and> (\<forall>failure. net url = Inl (RequestException failure) \<longrightarrow> check_url net url = Inr None)
   \<and> (\<forall>e. check_url net url = Inl e \<longleftrightarrow> net url = Inl e \<and> \<not> is_RequestException e)"
  by (cases "net url") (auto simp: check_url_def requests_get_def)

theorem check_url_total_witness:
  "check_url ok_net ''https://canlii.ca'' = Inr (Some ''https://canlii.ca'')
   \<and> check_url not_found_net ''https://canlii.ca'' = Inr None
   \<and> timeout_net ''https://canlii.ca'' = Inl (RequestException Timeout)
   \<and> check_url timeout_net ''https://canlii.ca'' = Inr None
   \<and> check_url bad_host_net ''http://a..com/'' = Inl LocationParseError"
proof -
  have a: "ok_net ''https://canlii.ca'' = Inr \<lparr>status_code = 200, body_json = None\<rparr>"
    and b: "not_found_net ''https://canlii.ca''
      = Inr \<lparr>status_code = 404, body_json = Some (JObj [(''error'', JStr ''not found'')])\<rparr>"
    and c: "timeout_net ''https://canlii.ca'' = Inl (RequestException Timeout)"
    and d: "bad_host_net ''http://a..com/'' = Inl LocationParseError"
    by (simp_all add: ok_net_def not_found_net_def timeout_net_def bad_host_net_def)
  from check_url_total [of ok_net "''https://canlii.ca''"] a
  have r1: "check_url ok_net ''https://canlii.ca'' = Inr (Some ''https://canlii.ca'')" by simp
  from check_url_total [of not_found_net "''https://canlii.ca''"] b
  have r2: "check_url not_found_net ''https://canlii.ca'' = Inr None" by simp
  from check_url_total [of timeout_net "''https://canlii.ca''", THEN conjunct2, THEN conjunct2,
      THEN conjunct1, rule_format, OF c]
  have r3: "check_url timeout_net ''https://canlii.ca'' = Inr None" .
  from check_url_total [of bad_host_net "''http://a..com/''"] d
  have r4: "check_url bad_host_net ''http://a..com/'' = Inl LocationParseError" by simp
  from r1 r2 c r3 r4 show ?thesis by simp
qed

text \<open>
  Claim C5 as stated fails on a success status other than 200: a response with status 204
  is a successful one, and \<^verbatim>\<open>check_url\<close> returns \<^verbatim>\<open>None\<close> for it, not the URL.
\<close>

theorem check_url_no_content_counterexample:
  "no_content_net ''https://canlii.ca'' = Inr \<lparr>status_code = 204, body_json = None\<rparr>
   \<and> http_success_status 204
   \<and> check_url no_content_net ''https://canlii.ca'' = Inr None"
  by (simp add: no_content_net_def http_success_status_def check_url_def requests_get_def)

section \<open>Properties of canlii_api_call\<close>

lemma io_bind_return_right: "io_bind m io_return = m"
  by (rule ext) (simp add: io_bind_def io_return_def split: prod.splits sum.splits)

lemma run_facets_Nil: "run_facets [] net args k = io_return"
  by (rule ext) simp

lemma run_facets_Cons:
  "run_facets (f # fs) net args k =
     (\<lambda>info. io_bind (if requested args f then facet_block f net args k info else io_return info)
        (run_facets fs net args k))"
  by (rule ext) simp

lemma canlii_api_call_facets:
  "canlii_api_call dotenv environ console net args =
     io_bind (resolve_api_key dotenv environ console)
       (\<lambda>k. run_facets facets_in_order net args k Map.empty) []"
  by (simp add: canlii_api_call_def facets_in_order_def run_facets_Cons run_facets_Nil
      io_bind_return_right cong: if_cong)




lemma get_json_trace: "snd (get_json net url tr) = tr @ [Get url]"
  by (simp add: get_json_def split: sum.splits)

lemma facet_block_trace:
  "facet_block f net args k info tr = (out, tr') \<Longrightarrow> tr' = tr @ [Get (facet_url args k f)]"
  by (cases f)
    (auto simp: decision_metadata_block_def cases_cited_block_def cases_citing_block_def
      legislation_metadata_block_def canlii_database_block_def io_bind_def io_return_def
      get_json_def split: sum.splits prod.splits)





lemma run_facets_trace:
  "run_facets fs net args k info tr = (out, tr') \<Longrightarrow>
   \<exists>us. tr' = tr @ map Get us
      \<and> set us \<subseteq> facet_url args k ` {f \<in> set fs. requested args f}"
proof (induction fs arbitrary: info tr)
  case Nil
  then show ?case by (simp add: io_return_def)
next
  case (Cons f fs)
  show ?case
  proof (cases "requested args f")
    case False
    with Cons.prems have "run_facets fs net args k info tr = (out, tr')"
      by (simp add: io_bind_def io_return_def)
    from Cons.IH [OF this] False show ?thesis by auto
  next
    case True
    obtain r tr1 where blk: "facet_block f net args k info tr = (r, tr1)"
      by (cases "facet_block f net args k info tr")
    then have tr1: "tr1 = tr @ [Get (facet_url args k f)]"
      by (rule facet_block_trace)
    show ?thesis
    proof (cases r)
      case (Inl e)
      with Cons.prems True blk have "tr' = tr1" by (simp add: io_bind_def)
      with tr1 True have "tr' = tr @ map Get [facet_url args k f]
        \<and> set [facet_url args k f] \<subseteq> facet_url args k ` {g \<in> set (f # fs). requested args g}"
        by simp
      then show ?thesis by blast
    next
      case (Inr info1)
      with Cons.prems True blk have "run_facets fs net args k info1 tr1 = (out, tr')"
        by (simp add: io_bind_def)
      from Cons.IH [OF this] obtain us where
        us: "tr' = tr1 @ map Get us" "set us \<subseteq> facet_url args k ` {g \<in> set fs. requested args g}"
        by blast
      with tr1 True have "tr' = tr @ map Get (facet_url args k f # us)
        \<and> set (facet_url args k f # us) \<subseteq> facet_url args k ` {g \<in> set (f # fs). requested args g}"
        by auto
      then show ?thesis by blast
    qed
  qed
qed



lemma resolve_api_key_cases:
  "resolve_api_key dotenv environ console [] =
     (case load_dotenv dotenv environ ''CANLII_API_KEY'' of
        Some k \<Rightarrow> (Inr k, [])
      | None \<Rightarrow>
         (case console of
            [] \<Rightarrow> (Inl EOFError, [Print api_key_prompt, Input])
          | line # rest \<Rightarrow>
              (if line = [] then Inl (SystemExit None) else Inr line,
               [Print api_key_prompt, Input])))"
  by (simp add: resolve_api_key_def io_bind_def io_return_def print_def input_def sys_exit_def
      split: option.splits list.splits)


lemma canlii_api_call_split:
  assumes "canlii_api_call dotenv environ console net args = (out, tr)"
  shows "case resolve_api_key dotenv environ console [] of
           (Inl e, tr0) \<Rightarrow> out = Inl e \<and> tr = tr0
         | (Inr k, tr0) \<Rightarrow> run_facets facets_in_order net args k Map.empty tr0 = (out, tr)"
  using assms unfolding canlii_api_call_facets
  by (auto simp: io_bind_def split: prod.splits sum.splits)











lemma run_facets_events:
  assumes "run_facets fs net args k info tr0 = (out, tr)"
  shows "\<exists>tr'. tr = tr0 @ tr' \<and> (\<forall>ev \<in> set tr'. \<exists>f. requested args f \<and> ev = Get (facet_url args k f))"
proof -
  from run_facets_trace [OF assms] obtain us where
    us: "tr = tr0 @ map Get us" "set us \<subseteq> facet_url args k ` {f \<in> set fs. requested args f}"
    by blast
  from us(2) have "\<forall>ev \<in> set (map Get us). \<exists>f. requested args f \<and> ev = Get (facet_url args k f)"
    by auto
  with us(1) show ?thesis by blast
qed

text \<open>
  Claim C7, as amended. When the environment (after \<^verbatim>\<open>load_dotenv\<close>) has the entry, the
  call is the five facet blocks run with that value from an empty trace: nothing is printed
  or read, and every event is a request built with that value. When the entry is absent
  and the console gives a line that is not empty, the call prints the prompt, reads the
  line, and runs the blocks with the line as the credential. When the line is empty, the
  call prints, reads and raises \<^verbatim>\<open>SystemExit\<close> with no code, whose exit status is zero; no
  request is made.
\<close>

theorem credential_resolution:
  assumes "canlii_api_call dotenv environ console net args = (out, tr)"
  shows "(\<forall>k. load_dotenv dotenv environ ''CANLII_API_KEY'' = Some k \<longrightarrow>
            run_facets facets_in_order net args k Map.empty [] = (out, tr)
            \<and> (\<forall>ev \<in> set tr. \<exists>f. requested args f \<and> ev = Get (facet_url args k f)))
       \<and> (load_dotenv dotenv environ ''CANLII_API_KEY'' = None \<longrightarrow>
            (\<forall>line rest. console = line # rest \<longrightarrow> line \<noteq> [] \<longrightarrow>
               run_facets facets_in_order net args line Map.empty [Print api_key_prompt, Input]
                 = (out, tr)
               \<and> (\<exists>tr'. tr = [Print api_key_prompt, Input] @ tr'
                     \<and> (\<forall>ev \<in> set tr'. \<exists>f. requested args f \<and> ev = Get (facet_url args line f))))
            \<and> (\<forall>rest. console = [] # rest \<longrightarrow>
                 tr = [Print api_key_prompt, Input]
                 \<and> (\<exists>code. out = Inl (SystemExit code) \<and> exit_status code = 0)))"
proof (intro conjI allI impI)
  fix k assume "load_dotenv dotenv environ ''CANLII_API_KEY'' = Some k"
  then have "resolve_api_key dotenv environ console [] = (Inr k, [])"
    by (simp add: resolve_api_key_cases)
  with canlii_api_call_split [OF assms]
  show run: "run_facets facets_in_order net args k Map.empty [] = (out, tr)" by simp
  from run_facets_events [OF run]
  show "\<forall>ev \<in> set tr. \<exists>f. requested args f \<and> ev = Get (facet_url args k f)" by simp
next
  fix line rest
  assume "load_dotenv dotenv environ ''CANLII_API_KEY'' = None" "console = line # rest" "line \<noteq> []"
  then have "resolve_api_key dotenv environ console [] = (Inr line, [Print api_key_prompt, Input])"
    by (simp add: resolve_api_key_cases)
  with canlii_api_call_split [OF assms]
  show run: "run_facets facets_in_order net args line Map.empty [Print api_key_prompt, Input]
     = (out, tr)" by simp
  from run_facets_events [OF run]
  show "\<exists>tr'. tr = [Print api_key_prompt, Input] @ tr'
          \<and> (\<forall>ev \<in> set tr'. \<exists>f. requested args f \<and> ev = Get (facet_url args line f))" .
next
  fix rest
  assume "load_dotenv dotenv environ ''CANLII_API_KEY'' = None" "console = [] # rest"
  then have "resolve_api_key dotenv environ console []
     = (Inl (SystemExit None), [Print api_key_prompt, Input])"
    by (simp add: resolve_api_key_cases)
  with canlii_api_call_split [OF assms]
  have r: "out = Inl (SystemExit None)" "tr = [Print api_key_prompt, Input]" by simp_all
  from r(2) show "tr = [Print api_key_prompt, Input]" .
  from r(1) show "\<exists>code. out = Inl (SystemExit code) \<and> exit_status code = 0" by simp
qed

theorem credential_resolution_witness:
  "load_dotenv no_environ environ_with_key ''CANLII_API_KEY'' = Some ''secret''
   \<and> run_facets facets_in_order html_net cited_only ''secret'' Map.empty []
       = canlii_api_call no_environ environ_with_key [''typed''] html_net cited_only
   \<and> load_dotenv no_environ no_environ ''CANLII_API_KEY'' = None
   \<and> run_facets facets_in_order html_net cited_only ''typed'' Map.empty
         [Print api_key_prompt, Input]
       = canlii_api_call no_environ no_environ [''typed''] html_net cited_only
   \<and> snd (canlii_api_call no_environ no_environ blank_console html_net cited_only)
       = [Print api_key_prompt, Input]"
proof -
  have a: "load_dotenv no_environ environ_with_key ''CANLII_API_KEY'' = Some ''secret''"
    by (simp add: load_dotenv_def no_environ_def environ_with_key_def)
  have b: "load_dotenv no_environ no_environ ''CANLII_API_KEY'' = None"
    by (simp add: load_dotenv_def no_environ_def)
  obtain o1 t1 where
    c1: "canlii_api_call no_environ environ_with_key [''typed''] html_net cited_only = (o1, t1)"
    by (cases "canlii_api_call no_environ environ_with_key [''typed''] html_net cited_only")
  obtain o2 t2 where
    c2: "canlii_api_call no_environ no_environ [''typed''] html_net cited_only = (o2, t2)"
    by (cases "canlii_api_call no_environ no_environ [''typed''] html_net cited_only")
  obtain o3 t3 where
    c3: "canlii_api_call no_environ no_environ blank_console html_net cited_only = (o3, t3)"
    by (cases "canlii_api_call no_environ no_environ blank_console html_net cited_only")
  from credential_resolution [OF c1] a
  have r1: "run_facets facets_in_order html_net cited_only ''secret'' Map.empty [] = (o1, t1)"
    by blast
  from credential_resolution [OF c2, THEN conjunct2, rule_format, OF b, THEN conjunct1,
      rule_format, of "''typed''" "[]"]
  have r2: "run_facets facets_in_order html_net cited_only ''typed'' Map.empty
      [Print api_key_prompt, Input] = (o2, t2)"
    by simp
  from credential_resolution [OF c3, THEN conjunct2, rule_format, OF b, THEN conjunct2,
      rule_format, of "[]"]
  have r3: "t3 = [Print api_key_prompt, Input]"
    by (simp add: blank_console_def)
  from a b r1 r2 r3 c1 c2 c3 show ?thesis by simp
qed

text \<open>
  Claim C7 as stated fails on the blank line: what reaches the caller is the exception
  \<^verbatim>\<open>SystemExit(None)\<close>, and the exit status it stands for is zero, not a non-zero one.
\<close>

theorem blank_input_exit_counterexample:
  "fst (canlii_api_call no_environ no_environ blank_console not_found_net cited_only)
     = Inl (SystemExit None)
   \<and> exit_status None = 0"
  by (simp add: canlii_api_call_def resolve_api_key_def load_dotenv_def no_environ_def
      blank_console_def io_bind_def print_def input_def sys_exit_def)

section \<open>Properties of the store\<close>

lemma columns_agree: "insert_columns = result_columns" "param_keys = result_columns"
  by (simp_all add: insert_columns_def param_keys_def result_columns_def)

lemma result_columns_uid: "result_columns = ''uid'' # update_columns"
  by (simp add: result_columns_def update_columns_def)

lemma uid_not_updated: "''uid'' \<notin> set update_columns"
  by (simp add: update_columns_def)

lemma data_getitems_present:
  "\<forall>k \<in> set keys. data k \<noteq> None \<Longrightarrow>
   data_getitems data keys = Inr (map (\<lambda>k. the (data k)) keys)"
  by (induction keys) (auto simp: bind_exn_def data_getitem_def)

lemma data_getitems_missing:
  "\<exists>k \<in> set keys. data k = None \<Longrightarrow>
   \<exists>k \<in> set keys. data k = None \<and> data_getitems data keys = Inl (KeyError k)"
proof (induction keys)
  case Nil
  then show ?case by simp
next
  case (Cons key keys)
  show ?case
  proof (cases "data key")
    case None
    then show ?thesis by (auto simp: bind_exn_def data_getitem_def)
  next
    case (Some v)
    with Cons.prems have "\<exists>k \<in> set keys. data k = None" by auto
    from Cons.IH [OF this] obtain k where
      "k \<in> set keys" "data k = None" "data_getitems data keys = Inl (KeyError k)" by blast
    with Some show ?thesis by (auto simp: bind_exn_def data_getitem_def)
  qed
qed

lemma make_row_present:
  assumes "\<forall>k \<in> set param_keys. data k \<noteq> None"
  shows "make_row insert_columns (map adapt (map (\<lambda>k. the (data k)) param_keys)) = row_of data"
proof -
  have "\<And>c. c \<in> set result_columns \<Longrightarrow>
      (case map_of (zip result_columns (map (\<lambda>k. adapt (the (data k))) result_columns)) c of
         None \<Rightarrow> Null | Some v \<Rightarrow> v)
      = (case data c of None \<Rightarrow> Null | Some v \<Rightarrow> adapt v)"
    using assms by (auto simp: map_of_zip_map columns_agree)
  then show ?thesis
    by (simp add: make_row_def row_of_def columns_agree comp_def)
qed

lemma make_row_present_comp:
  assumes "\<forall>k \<in> set param_keys. data k \<noteq> None"
  shows "make_row insert_columns (map (adapt \<circ> (\<lambda>k. the (data k))) param_keys) = row_of data"
  using make_row_present [OF assms] by simp

lemma column_row_of:
  "c \<in> set result_columns \<Longrightarrow>
   column (row_of data) c = (case data c of None \<Rightarrow> Null | Some v \<Rightarrow> adapt v)"
  by (simp add: column_def row_of_def map_of_map_restrict)

lemma column_do_update_set_uid: "column (do_update_set new old) ''uid'' = column old ''uid''"
  by (simp add: column_def do_update_set_def map_of_map_restrict result_columns_uid uid_not_updated)

lemma do_update_set_row_of:
  assumes "uid_conflict (row_of data) old"
  shows "do_update_set (row_of data) old = row_of data"
proof -
  have "\<And>c. c \<in> set result_columns \<Longrightarrow>
      (if c \<in> set update_columns then column (row_of data) c else column old c)
      = (case data c of None \<Rightarrow> Null | Some v \<Rightarrow> adapt v)"
  proof -
    fix c assume c: "c \<in> set result_columns"
    show "(if c \<in> set update_columns then column (row_of data) c else column old c)
      = (case data c of None \<Rightarrow> Null | Some v \<Rightarrow> adapt v)"
    proof (cases "c \<in> set update_columns")
      case True
      with c show ?thesis by (simp add: column_row_of)
    next
      case False
      with c have "c = ''uid''" by (simp add: result_columns_uid)
      with assms False c show ?thesis by (simp add: uid_conflict_def column_row_of)
    qed
  qed
  then have "map (\<lambda>c. (c, if c \<in> set update_columns then column (row_of data) c else column old c))
       result_columns
     = map (\<lambda>c. (c, case data c of None \<Rightarrow> Null | Some v \<Rightarrow> adapt v)) result_columns"
    by (intro map_cong) simp_all
  then show ?thesis
    unfolding do_update_set_def by (simp only: row_of_def [symmetric])
qed

lemma insert_results_row_missing:
  assumes "\<exists>k \<in> set param_keys. data k = None"
  shows "\<exists>k \<in> set param_keys. data k = None
           \<and> insert_results_row data update_existing d = Inl (KeyError k)"
proof -
  from data_getitems_missing [OF assms] obtain k where
    "k \<in> set param_keys" "data k = None" "data_getitems data param_keys = Inl (KeyError k)"
    by blast
  then show ?thesis by (auto simp: insert_results_row_def bind_exn_def)
qed

lemma insert_results_row_present:
  assumes "\<forall>k \<in> set param_keys. data k \<noteq> None"
  shows "insert_results_row data update_existing d =
     (case results_table d of
        None \<Rightarrow> Inl (no_such_table ''results'')
      | Some rows \<Rightarrow>
          Inr (d\<lparr>results_table :=
            Some (if update_existing then insert_or_update_rows (row_of data) rows
                  else insert_or_ignore_rows (row_of data) rows)\<rparr>))"
  by (simp add: insert_results_row_def data_getitems_present [OF assms] bind_exn_def
      insert_on_conflict_update_def insert_or_ignore_results_def make_row_present_comp [OF assms]
      split: option.splits)

lemma insert_or_update_rows_row_of:
  "insert_or_update_rows (row_of data) rows =
     (if list_ex (uid_conflict (row_of data)) rows
      then map (\<lambda>old. if uid_conflict (row_of data) old then row_of data else old) rows
      else rows @ [row_of data])"
  by (simp add: insert_or_update_rows_def do_update_set_row_of cong: if_cong)

lemma insert_keywords_eq:
  "insert_keywords data ks d =
     (if ks = [] then Inr d
      else case data ''uid'' of
             None \<Rightarrow> Inl (KeyError ''uid'')
           | Some uid \<Rightarrow>
               (case keywords_table d of
                  None \<Rightarrow> Inl (no_such_table ''keywords'')
                | Some rows \<Rightarrow>
                    Inr (d\<lparr>keywords_table := Some (rows @ map (\<lambda>k. (adapt uid, Text k)) ks)\<rparr>)))"
  by (induction ks arbitrary: d)
    (auto simp: bind_exn_def data_getitem_def insert_or_ignore_keyword_def split: option.splits)

lemma insert_categories_eq:
  "insert_categories data ks d =
     (if ks = [] then Inr d
      else case data ''uid'' of
             None \<Rightarrow> Inl (KeyError ''uid'')
           | Some uid \<Rightarrow>
               (case categories_table d of
                  None \<Rightarrow> Inl (no_such_table ''categories'')
                | Some rows \<Rightarrow>
                    Inr (d\<lparr>categories_table := Some (rows @ map (\<lambda>k. (adapt uid, Text k)) ks)\<rparr>)))"
  by (induction ks arbitrary: d)
    (auto simp: bind_exn_def data_getitem_def insert_or_ignore_category_def split: option.splits)

lemma insert_keyword_rows_frame:
  "insert_keyword_rows data d = Inr d' \<Longrightarrow>
   results_table d' = results_table d \<and> categories_table d' = categories_table d"
  by (auto simp: insert_keyword_rows_def insert_keywords_eq
      split: option.splits pyval.splits if_splits)

lemma insert_category_rows_frame:
  "insert_category_rows data d = Inr d' \<Longrightarrow>
   results_table d' = results_table d \<and> keywords_table d' = keywords_table d"
  by (auto simp: insert_category_rows_def insert_categories_eq
      split: option.splits pyval.splits if_splits)

lemma insert_data_eq:
  "insert_data data upd w =
     (case insert_statements data upd (db w) of
        Inl e \<Rightarrow> (Inl e, w\<lparr>open_connections := open_connections w + 1\<rparr>)
      | Inr d \<Rightarrow> (Inr (), w\<lparr>db := d\<rparr>))"
  by (simp add: insert_data_def connect_def commit_def close_def split: sum.splits)

lemma insert_data_Inr:
  "insert_data data upd w = (Inr (), w') \<longleftrightarrow>
     (\<exists>d. insert_statements data upd (db w) = Inr d \<and> w' = w\<lparr>db := d\<rparr>)"
  by (auto simp: insert_data_eq split: sum.splits)

lemma insert_data_failed:
  "fst (insert_data data upd w) = Inl e \<Longrightarrow>
   insert_statements data upd (db w) = Inl e
   \<and> snd (insert_data data upd w) = w\<lparr>open_connections := open_connections w + 1\<rparr>"
  by (auto simp: insert_data_eq split: sum.splits)

lemma insert_statements_results:
  assumes "insert_statements data upd d = Inr d'"
  shows "\<exists>rows. results_table d = Some rows \<and> (\<forall>k \<in> set param_keys. data k \<noteq> None)
           \<and> results_table d' =
               Some (if upd then insert_or_update_rows (row_of data) rows
                     else insert_or_ignore_rows (row_of data) rows)"
proof -
  from assms obtain d1 d2 where
    s1: "insert_results_row data upd d = Inr d1" and
    s2: "insert_keyword_rows data d1 = Inr d2" and
    s3: "insert_category_rows data d2 = Inr d'"
    by (auto simp: insert_statements_def bind_exn_def split: sum.splits)
  have present: "\<forall>k \<in> set param_keys. data k \<noteq> None"
  proof (rule ccontr)
    assume "\<not> (\<forall>k \<in> set param_keys. data k \<noteq> None)"
    then have "\<exists>k \<in> set param_keys. data k = None" by simp
    from insert_results_row_missing [OF this, of upd d] s1 show False by auto
  qed
  from s1 obtain rows where rows: "results_table d = Some rows"
    and d1: "results_table d1 =
               Some (if upd then insert_or_update_rows (row_of data) rows
                     else insert_or_ignore_rows (row_of data) rows)"
    by (auto simp: insert_results_row_present [OF present] split: option.splits)
  from insert_keyword_rows_frame [OF s2] insert_category_rows_frame [OF s3]
  have "results_table d' = results_table d1" by simp
  with rows d1 present show ?thesis by simp
qed

lemma column_row_of_uid:
  "data ''uid'' = Some v \<Longrightarrow> column (row_of data) ''uid'' = adapt v"
  by (simp add: column_row_of result_columns_uid)

lemma conflict_iff:
  assumes "data ''uid'' = Some (PyStr u)"
  shows "uid_conflict (row_of data) old \<longleftrightarrow> column old ''uid'' = Text u"
  by (simp add: uid_conflict_def column_row_of_uid [where data = data, OF assms])

lemma insert_or_ignore_rows_uid:
  assumes "data ''uid'' = Some (PyStr u)"
  shows "insert_or_ignore_rows (row_of data) rows =
           (if rows_with_uid u rows = [] then rows @ [row_of data] else rows)"
  by (auto simp: insert_or_ignore_rows_def list_ex_iff conflict_iff [where data = data, OF assms] rows_with_uid_def
      filter_empty_conv)

lemma insert_or_update_rows_uid:
  assumes "data ''uid'' = Some (PyStr u)"
  shows "insert_or_update_rows (row_of data) rows =
           (if rows_with_uid u rows = [] then rows @ [row_of data]
            else map (\<lambda>old. if column old ''uid'' = Text u then row_of data else old) rows)"
  by (auto simp: insert_or_update_rows_row_of list_ex_iff conflict_iff [where data = data, OF assms] rows_with_uid_def
      filter_empty_conv)

lemma rows_with_uid_append:
  "rows_with_uid u (rows @ extra) = rows_with_uid u rows @ rows_with_uid u extra"
  by (simp add: rows_with_uid_def)

lemma rows_with_uid_row_of:
  "data ''uid'' = Some (PyStr u) \<Longrightarrow> rows_with_uid u [row_of data] = [row_of data]"
  by (simp add: rows_with_uid_def column_row_of_uid)

lemma rows_with_uid_replace:
  assumes "data ''uid'' = Some (PyStr u)"
  shows "rows_with_uid u (map (\<lambda>old. if column old ''uid'' = Text u then row_of data else old) rows)
           = map (\<lambda>_. row_of data) (rows_with_uid u rows)"
  by (induction rows) (simp_all add: rows_with_uid_def column_row_of_uid [where data = data, OF assms])

lemma rows_with_uid_after_ignore:
  assumes "data ''uid'' = Some (PyStr u)"
  shows "rows_with_uid u (insert_or_ignore_rows (row_of data) rows) \<noteq> []"
    and "length (rows_with_uid u (insert_or_ignore_rows (row_of data) rows))
           = max 1 (length (rows_with_uid u rows))"
  by (auto simp: insert_or_ignore_rows_uid [where data = data, OF assms] rows_with_uid_append
      rows_with_uid_row_of [where data = data, OF assms] max_def Suc_le_eq)

lemma rows_with_uid_after_update:
  assumes "data ''uid'' = Some (PyStr u)"
  shows "set (rows_with_uid u (insert_or_update_rows (row_of data) rows)) = {row_of data}"
    and "length (rows_with_uid u (insert_or_update_rows (row_of data) rows))
           = max 1 (length (rows_with_uid u rows))"
proof -
  show "set (rows_with_uid u (insert_or_update_rows (row_of data) rows)) = {row_of data}"
  proof (cases "rows_with_uid u rows")
    case Nil
    then show ?thesis
      by (simp add: insert_or_update_rows_uid [where data = data, OF assms] rows_with_uid_append
          rows_with_uid_row_of [where data = data, OF assms])
  next
    case (Cons r rs)
    then show ?thesis
      by (auto simp: insert_or_update_rows_uid [where data = data, OF assms]
          rows_with_uid_replace [where data = data, OF assms])
  qed
  show "length (rows_with_uid u (insert_or_update_rows (row_of data) rows))
           = max 1 (length (rows_with_uid u rows))"
    by (auto simp: insert_or_update_rows_uid [where data = data, OF assms] rows_with_uid_append
      rows_with_uid_row_of [where data = data, OF assms]
      rows_with_uid_replace [where data = data, OF assms] max_def Suc_le_eq)
qed

lemma insert_data_results:
  assumes "insert_data data upd w = (out, w')" and "results_table (db w) = Some rows"
  shows "results_table (db w') =
           Some (if out = Inr ()
                 then (if upd then insert_or_update_rows (row_of data) rows
                       else insert_or_ignore_rows (row_of data) rows)
                 else rows)"
proof (cases "insert_statements data upd (db w)")
  case (Inl e)
  with assms show ?thesis by (auto simp: insert_data_eq)
next
  case (Inr d)
  from insert_statements_results [OF Inr] assms(2)
  have "results_table d =
          Some (if upd then insert_or_update_rows (row_of data) rows
                else insert_or_ignore_rows (row_of data) rows)" by auto
  with Inr assms(1) show ?thesis by (auto simp: insert_data_eq)
qed

lemma insert_data_success:
  assumes "insert_data data upd w = (Inr (), w')"
  shows "\<exists>rows. results_table (db w) = Some rows" and "\<forall>k \<in> set param_keys. data k \<noteq> None"
proof -
  from assms obtain d where "insert_statements data upd (db w) = Inr d"
    by (auto simp: insert_data_Inr)
  from insert_statements_results [OF this]
  show "\<exists>rows. results_table (db w) = Some rows" and "\<forall>k \<in> set param_keys. data k \<noteq> None"
    by blast+
qed

lemma insert_data_again:
  assumes "insert_data data upd w = (Inl e, w1)"
  shows "fst (insert_data data upd w1) = Inl e"
proof -
  from assms have "insert_statements data upd (db w) = Inl e" "db w1 = db w"
    by (auto simp: insert_data_eq split: sum.splits)
  then show ?thesis by (simp add: insert_data_eq)
qed

lemma insert_or_ignore_rows_idem:
  assumes "data ''uid'' = Some (PyStr u)"
  shows "insert_or_ignore_rows (row_of data) (insert_or_ignore_rows (row_of data) rows)
           = insert_or_ignore_rows (row_of data) rows"
  using rows_with_uid_after_ignore(1) [where data = data, OF assms, of rows]
  by (simp add: insert_or_ignore_rows_uid [where data = data, OF assms,
        of "insert_or_ignore_rows (row_of data) rows"])

text \<open>
  Claim C2. Under the Ignore policy (\<^verbatim>\<open>update_existing=False\<close>), for a record whose
  \<^verbatim>\<open>uid\<close> is a string: if the store already has a primary row with that \<^verbatim>\<open>uid\<close>, the
  call leaves the whole \<^verbatim>\<open>results\<close> table as it was; in every case the rows that were
  there stay as they are, in place; a second call with the same data leaves the table as
  the first call left it; and when the store had at most one row with that \<^verbatim>\<open>uid\<close> and
  the first call returned, there is exactly one such row after the second.
\<close>

theorem ignore_policy_keeps_row:
  assumes "data ''uid'' = Some (PyStr u)"
    and "results_table (db w) = Some rows"
    and "insert_data data False w = (out1, w1)"
    and "insert_data data False w1 = (out2, w2)"
  shows "(rows_with_uid u rows \<noteq> [] \<longrightarrow> results_table (db w1) = Some rows)
       \<and> (\<exists>extra. results_table (db w1) = Some (rows @ extra))
       \<and> results_table (db w2) = results_table (db w1)
       \<and> (out1 = Inr () \<longrightarrow> length (rows_with_uid u rows) \<le> 1 \<longrightarrow>
            (\<exists>rows2. results_table (db w2) = Some rows2 \<and> length (rows_with_uid u rows2) = 1))"
proof -
  let ?new = "row_of data"
  have r1: "results_table (db w1) =
      Some (if out1 = Inr () then insert_or_ignore_rows ?new rows else rows)"
    using insert_data_results [OF assms(3,2)] by simp
  have p1: "rows_with_uid u rows \<noteq> [] \<longrightarrow> results_table (db w1) = Some rows"
    by (simp add: r1 insert_or_ignore_rows_uid [where data = data, OF assms(1)])
  have p2: "\<exists>extra. results_table (db w1) = Some (rows @ extra)"
    by (simp add: r1 insert_or_ignore_rows_uid [where data = data, OF assms(1)])
  have p3: "results_table (db w2) = results_table (db w1)"
  proof (cases out1)
    case (Inl e)
    with insert_data_again [of data False w e w1] assms(3,4) have "out2 = Inl e" by simp
    with insert_data_results [OF assms(4) r1] show ?thesis by (simp add: r1)
  next
    case (Inr x)
    with insert_data_results [OF assms(4) r1] show ?thesis
      by (simp add: r1 insert_or_ignore_rows_idem [where data = data, OF assms(1)])
  qed
  have p4: "out1 = Inr () \<longrightarrow> length (rows_with_uid u rows) \<le> 1 \<longrightarrow>
            (\<exists>rows2. results_table (db w2) = Some rows2 \<and> length (rows_with_uid u rows2) = 1)"
    by (simp add: p3 r1 rows_with_uid_after_ignore(2) [where data = data, OF assms(1)] max_def)
  from p1 p2 p3 p4 show ?thesis by blast
qed

text \<open>
  Claim C3, as amended. Under the Update policy (\<^verbatim>\<open>update_existing=True\<close>), for records
  \<open>A\<close> and \<open>B\<close> with the same string \<^verbatim>\<open>uid\<close>, written one after the other by calls that
  return: every stored row with that \<^verbatim>\<open>uid\<close> is then \<open>row_of B\<close>, the row that holds under
  each column of the table the value of \<open>B\<close> under the key of the same name, and there is
  such a row; nothing of \<open>A\<close> is left in it. The columns are \<^verbatim>\<open>uid\<close> and the fifteen that
  the \<^verbatim>\<open>SET\<close> list assigns. The number of rows with that \<^verbatim>\<open>uid\<close> is one where it was at
  most one before, and the first call adds the row of \<open>A\<close> at the end when no row had that
  \<^verbatim>\<open>uid\<close>.
\<close>

theorem update_policy_full_replace:
  assumes "A ''uid'' = Some (PyStr u)" and "B ''uid'' = Some (PyStr u)"
    and "insert_data A True w = (Inr (), w1)" and "insert_data B True w1 = (Inr (), w2)"
  shows "(\<exists>rows0 rows1 rows2.
           results_table (db w) = Some rows0 \<and> results_table (db w1) = Some rows1
           \<and> results_table (db w2) = Some rows2
           \<and> set (rows_with_uid u rows2) = {row_of B}
           \<and> (\<forall>c \<in> set result_columns. \<exists>v. B c = Some v \<and> column (row_of B) c = adapt v)
           \<and> length (rows_with_uid u rows2) = max 1 (length (rows_with_uid u rows0))
           \<and> (rows_with_uid u rows0 = [] \<longrightarrow> rows1 = rows0 @ [row_of A]))
       \<and> result_columns = ''uid'' # update_columns \<and> length update_columns = 15"
proof -
  from insert_data_success(1) [OF assms(3)] obtain rows0 where
    r0: "results_table (db w) = Some rows0" by blast
  let ?rows1 = "insert_or_update_rows (row_of A) rows0"
  let ?rows2 = "insert_or_update_rows (row_of B) ?rows1"
  from insert_data_results [OF assms(3) r0] have r1: "results_table (db w1) = Some ?rows1" by simp
  from insert_data_results [OF assms(4) r1] have r2: "results_table (db w2) = Some ?rows2" by simp
  have a: "set (rows_with_uid u ?rows2) = {row_of B}"
    by (rule rows_with_uid_after_update(1) [where data = B, OF assms(2)])
  have b: "\<forall>c \<in> set result_columns. \<exists>v. B c = Some v \<and> column (row_of B) c = adapt v"
  proof
    fix c assume c: "c \<in> set result_columns"
    with insert_data_success(2) [OF assms(4)] obtain v where "B c = Some v"
      by (auto simp: columns_agree)
    with c show "\<exists>v. B c = Some v \<and> column (row_of B) c = adapt v"
      by (simp add: column_row_of)
  qed
  have c: "length (rows_with_uid u ?rows2) = max 1 (length (rows_with_uid u rows0))"
    by (simp add: rows_with_uid_after_update(2) [where data = B, OF assms(2)]
        rows_with_uid_after_update(2) [where data = A, OF assms(1)])
  have d: "rows_with_uid u rows0 = [] \<longrightarrow> ?rows1 = rows0 @ [row_of A]"
    by (simp add: insert_or_update_rows_uid [where data = A, OF assms(1)])
  from r0 r1 r2 a b c d have stored: "\<exists>rows0 rows1 rows2.
           results_table (db w) = Some rows0 \<and> results_table (db w1) = Some rows1
           \<and> results_table (db w2) = Some rows2
           \<and> set (rows_with_uid u rows2) = {row_of B}
           \<and> (\<forall>c \<in> set result_columns. \<exists>v. B c = Some v \<and> column (row_of B) c = adapt v)
           \<and> length (rows_with_uid u rows2) = max 1 (length (rows_with_uid u rows0))
           \<and> (rows_with_uid u rows0 = [] \<longrightarrow> rows1 = rows0 @ [row_of A])"
    by blast
  have "length update_columns = 15" by (simp add: update_columns_def)
  with stored result_columns_uid show ?thesis by blast
qed

lemma split_from_nonempty: "split_from sep piece s \<noteq> []"
  by (induction sep piece s rule: split_from.induct) auto

lemma tokens_empty_iff: "tokens x = [] \<longleftrightarrow> \<not> truthy x"
  by (cases x rule: truthy.cases) (simp_all add: str_split_def split_from_nonempty)

lemma insert_keyword_rows_tokens:
  "insert_keyword_rows data d = insert_keywords data (tokens (data ''keywords'')) d"
  by (simp add: insert_keyword_rows_def split: option.splits pyval.splits)

lemma insert_category_rows_tokens:
  "insert_category_rows data d = insert_categories data (tokens (data ''categories'')) d"
  by (simp add: insert_category_rows_def split: option.splits pyval.splits)

lemma uid_is_param_key: "''uid'' \<in> set param_keys"
  by (simp add: param_keys_def)

lemma insert_statements_eq:
  assumes "\<forall>k \<in> set param_keys. data k \<noteq> None"
    and "results_table d = Some rows" and "keywords_table d = Some kws"
    and "categories_table d = Some cats"
  shows "insert_statements data upd d =
     Inr \<lparr>results_table =
            Some (if upd then insert_or_update_rows (row_of data) rows
                  else insert_or_ignore_rows (row_of data) rows),
          keywords_table =
            Some (kws @ map (\<lambda>k. (adapt (the (data ''uid'')), Text k)) (tokens (data ''keywords''))),
          categories_table =
            Some (cats @ map (\<lambda>k. (adapt (the (data ''uid'')), Text k)) (tokens (data ''categories'')))\<rparr>"
proof -
  from assms(1) uid_is_param_key obtain uid where uid: "data ''uid'' = Some uid" by blast
  show ?thesis
    using assms(2-4) uid
    by (cases d)
      (simp add: insert_statements_def insert_results_row_present [OF assms(1)] bind_exn_def
        insert_keyword_rows_tokens insert_category_rows_tokens insert_keywords_eq
        insert_categories_eq)
qed

lemma create_citation_database_eq:
  "create_citation_database w =
     (Inr (), w\<lparr>db := \<lparr>results_table = Some (table_rows (results_table (db w))),
                       keywords_table = Some (table_rows (keywords_table (db w))),
                       categories_table = Some (table_rows (categories_table (db w)))\<rparr>\<rparr>)"
  by (cases "db w")
    (simp add: create_citation_database_def connect_def commit_def close_def bind_exn_def
      create_results_table_def create_keywords_table_def create_categories_table_def
      create_table_if_not_exists_def table_rows_def split: option.splits)

lemma create_times_Suc:
  "create_times (Suc n) w =
     w\<lparr>db := \<lparr>results_table = Some (table_rows (results_table (db w))),
               keywords_table = Some (table_rows (keywords_table (db w))),
               categories_table = Some (table_rows (categories_table (db w)))\<rparr>\<rparr>"
  by (induction n) (simp_all add: create_citation_database_eq table_rows_def)

text \<open>
  Claim C8. After any number \<open>n\<close> of calls of \<^verbatim>\<open>create_citation_database\<close>, one more call
  returns without an exception, and after it each of the three tables exists and holds
  exactly the rows it held at the start (none when it did not exist); no connection is
  left open.
\<close>

theorem schema_init_repeatable:
  "fst (create_citation_database (create_times n w)) = Inr ()
   \<and> results_table (db (create_times (Suc n) w)) = Some (table_rows (results_table (db w)))
   \<and> keywords_table (db (create_times (Suc n) w)) = Some (table_rows (keywords_table (db w)))
   \<and> categories_table (db (create_times (Suc n) w)) = Some (table_rows (categories_table (db w)))
   \<and> open_connections (create_times (Suc n) w) = open_connections w"
  by (simp add: create_times_Suc create_citation_database_eq del: create_times.simps)

text \<open>
  Claim C9, as amended. Every call of \<^verbatim>\<open>insert_data\<close> opens a connection of its own. When
  the call returns, the connection has been closed: as many connections are open after
  the call as before. When the call raises, the connection it opened is still open and
  nothing has been committed.
\<close>

theorem connection_closed_on_return_only:
  "(fst (insert_data data upd w) = Inr ()
      \<longrightarrow> open_connections (snd (insert_data data upd w)) = open_connections w)
   \<and> (\<forall>e. fst (insert_data data upd w) = Inl e
      \<longrightarrow> open_connections (snd (insert_data data upd w)) = open_connections w + 1
          \<and> db (snd (insert_data data upd w)) = db w)"
  by (simp add: insert_data_eq split: sum.splits)

text \<open>
  Claim C9 as stated fails on a path where a statement raises: on a store without the
  \<^verbatim>\<open>results\<close> table the \<^verbatim>\<open>INSERT\<close> raises, and the connection opened by the call is
  left open.
\<close>

theorem connection_left_open_counterexample:
  "fst (insert_data scalar_record False fresh_world) = Inl (OperationalError ''no such table: results'')
   \<and> open_connections fresh_world = 0
   \<and> open_connections (snd (insert_data scalar_record False fresh_world)) = 1"
  by (simp add: insert_data_eq insert_statements_def insert_results_row_def param_keys_def
      scalar_record_def fresh_world_def bind_exn_def data_getitem_def
      insert_or_ignore_results_def no_such_table_def)

text \<open>
  Claim C10. If any of the sixteen keys of \<open>param_keys\<close> is missing from the dictionary,
  \<^verbatim>\<open>insert_data\<close> raises \<^verbatim>\<open>KeyError\<close> for a missing key and the store is unchanged. If all
  sixteen are present and the three tables exist, the call returns, and a \<^verbatim>\<open>keywords\<close>
  (or \<^verbatim>\<open>categories\<close>) entry that is absent, \<^verbatim>\<open>None\<close> or the empty string leaves the
  \<^verbatim>\<open>keywords\<close> (or \<^verbatim>\<open>categories\<close>) table as it was.
\<close>

theorem required_and_optional_keys:
  "((\<exists>k \<in> set param_keys. data k = None) \<longrightarrow>
      (\<exists>k \<in> set param_keys. data k = None \<and> fst (insert_data data upd w) = Inl (KeyError k))
      \<and> db (snd (insert_data data upd w)) = db w)
   \<and> ((\<forall>k \<in> set param_keys. data k \<noteq> None) \<longrightarrow>
       results_table (db w) \<noteq> None \<longrightarrow> keywords_table (db w) \<noteq> None \<longrightarrow>
       categories_table (db w) \<noteq> None \<longrightarrow>
         fst (insert_data data upd w) = Inr ()
         \<and> (\<not> truthy (data ''keywords'') \<longrightarrow>
              keywords_table (db (snd (insert_data data upd w))) = keywords_table (db w))
         \<and> (\<not> truthy (data ''categories'') \<longrightarrow>
              categories_table (db (snd (insert_data data upd w))) = categories_table (db w)))"
proof (intro conjI impI)
  assume "\<exists>k \<in> set param_keys. data k = None"
  from insert_results_row_missing [OF this, of upd "db w"] obtain k where
    k: "k \<in> set param_keys" "data k = None"
      "insert_results_row data upd (db w) = Inl (KeyError k)" by blast
  then have e: "insert_statements data upd (db w) = Inl (KeyError k)"
    by (simp add: insert_statements_def bind_exn_def)
  from k e show "\<exists>k \<in> set param_keys. data k = None
      \<and> fst (insert_data data upd w) = Inl (KeyError k)"
    by (auto simp: insert_data_eq)
  from e show "db (snd (insert_data data upd w)) = db w"
    by (simp add: insert_data_eq)
next
  assume present: "\<forall>k \<in> set param_keys. data k \<noteq> None"
    and t: "results_table (db w) \<noteq> None" "keywords_table (db w) \<noteq> None"
      "categories_table (db w) \<noteq> None"
  then obtain rows kws cats where
    "results_table (db w) = Some rows" "keywords_table (db w) = Some kws"
    "categories_table (db w) = Some cats" by auto
  note eq = insert_statements_eq [OF present this, of upd] this
  from eq show "fst (insert_data data upd w) = Inr ()"
    by (simp add: insert_data_eq)
  from eq show "\<not> truthy (data ''keywords'') \<Longrightarrow>
      keywords_table (db (snd (insert_data data upd w))) = keywords_table (db w)"
    by (simp add: insert_data_eq tokens_empty_iff [symmetric])
  from eq show "\<not> truthy (data ''categories'') \<Longrightarrow>
      categories_table (db (snd (insert_data data upd w))) = categories_table (db w)"
    by (simp add: insert_data_eq tokens_empty_iff [symmetric])
qed

lemma insert_data_value:
  assumes "\<forall>k \<in> set param_keys. data k \<noteq> None"
    and "results_table (db w) = Some rows" and "keywords_table (db w) = Some kws"
    and "categories_table (db w) = Some cats"
  shows "insert_data data upd w =
     (Inr (),
      w\<lparr>db := \<lparr>results_table =
            Some (if upd then insert_or_update_rows (row_of data) rows
                  else insert_or_ignore_rows (row_of data) rows),
          keywords_table =
            Some (kws @ map (\<lambda>k. (adapt (the (data ''uid'')), Text k)) (tokens (data ''keywords''))),
          categories_table =
            Some (cats @ map (\<lambda>k. (adapt (the (data ''uid'')), Text k)) (tokens (data ''categories'')))\<rparr>\<rparr>)"
  by (simp add: insert_data_eq insert_statements_eq [OF assms])

lemma initialised_world_eq:
  "initialised_world =
     \<lparr>db = \<lparr>results_table = Some [], keywords_table = Some [], categories_table = Some []\<rparr>,
      open_connections = 0\<rparr>"
  by (simp add: initialised_world_def create_citation_database_eq fresh_world_def table_rows_def)

lemma scalar_record_present: "\<forall>k \<in> set param_keys. scalar_record k \<noteq> None"
  by (simp add: param_keys_def scalar_record_def)

lemma fraud_record_present: "\<forall>k \<in> set param_keys. fraud_record k \<noteq> None"
  by (simp add: param_keys_def scalar_record_def fraud_record_def)

lemma revised_record_present: "\<forall>k \<in> set param_keys. revised_record k \<noteq> None"
  by (simp add: param_keys_def scalar_record_def revised_record_def)

lemma record_uids:
  "scalar_record ''uid'' = Some (PyStr ''2021onca123'')"
  "fraud_record ''uid'' = Some (PyStr ''2021onca123'')"
  "revised_record ''uid'' = Some (PyStr ''2021onca123'')"
  by (simp_all add: scalar_record_def fraud_record_def revised_record_def)

lemma fraud_record_tokens:
  "tokens (fraud_record ''keywords'') = [''fraud'', ''negligence'', ''appeal'']"
  "tokens (fraud_record ''categories'') = [''criminal'', ''evidence'']"
  by (simp_all add: fraud_record_def str_split_def delimiter_def)

lemma scalar_record_tokens:
  "tokens (scalar_record ''keywords'') = []" "tokens (scalar_record ''categories'') = []"
  "tokens (revised_record ''keywords'') = []" "tokens (revised_record ''categories'') = []"
  by (simp_all add: scalar_record_def revised_record_def)

lemma once_world_eq:
  "once_world =
     \<lparr>db = \<lparr>results_table = Some [row_of fraud_record],
            keywords_table = Some [(Text ''2021onca123'', Text ''fraud''),
              (Text ''2021onca123'', Text ''negligence''), (Text ''2021onca123'', Text ''appeal'')],
            categories_table = Some [(Text ''2021onca123'', Text ''criminal''),
              (Text ''2021onca123'', Text ''evidence'')]\<rparr>,
      open_connections = 0\<rparr>"
proof -
  have t: "results_table (db initialised_world) = Some []"
    "keywords_table (db initialised_world) = Some []"
    "categories_table (db initialised_world) = Some []"
    by (simp_all add: initialised_world_eq)
  note v = insert_data_value [OF fraud_record_present t, of False]
  show ?thesis
    unfolding once_world_def v
    by (simp add: initialised_world_eq record_uids fraud_record_tokens insert_or_ignore_rows_def)
qed

lemma twice_world_eq:
  "twice_world =
     \<lparr>db = \<lparr>results_table = Some [row_of fraud_record],
            keywords_table = Some [(Text ''2021onca123'', Text ''fraud''),
              (Text ''2021onca123'', Text ''negligence''), (Text ''2021onca123'', Text ''appeal''),
              (Text ''2021onca123'', Text ''fraud''),
              (Text ''2021onca123'', Text ''negligence''), (Text ''2021onca123'', Text ''appeal'')],
            categories_table = Some [(Text ''2021onca123'', Text ''criminal''),
              (Text ''2021onca123'', Text ''evidence''), (Text ''2021onca123'', Text ''criminal''),
              (Text ''2021onca123'', Text ''evidence'')]\<rparr>,
      open_connections = 0\<rparr>"
proof -
  have t: "results_table (db once_world) = Some [row_of fraud_record]"
    "keywords_table (db once_world) = Some [(Text ''2021onca123'', Text ''fraud''),
       (Text ''2021onca123'', Text ''negligence''), (Text ''2021onca123'', Text ''appeal'')]"
    "categories_table (db once_world) = Some [(Text ''2021onca123'', Text ''criminal''),
       (Text ''2021onca123'', Text ''evidence'')]"
    by (simp_all add: once_world_eq)
  note v = insert_data_value [OF fraud_record_present t, of False]
  show ?thesis
    unfolding twice_world_def v
    by (simp add: once_world_eq record_uids fraud_record_tokens
        insert_or_ignore_rows_uid [where data = fraud_record, OF record_uids(2)]
        rows_with_uid_row_of [where data = fraud_record, OF record_uids(2)])
qed

text \<open>
  Claim C1, evaluated on the code. On the initialised store, writing the record whose
  keyword string is \<^verbatim>\<open>fraud - negligence - appeal\<close> (with the em-dash delimiter) inserts
  exactly the three rows of the claim, and its category string gives two rows. Writing
  the same record a second time inserts all of them again: the \<^verbatim>\<open>keywords\<close> table then
  holds six rows and the \<^verbatim>\<open>categories\<close> table four, each pair twice.
\<close>

theorem child_rows_duplicated:
  "keywords_table (db (snd (insert_data fraud_record False initialised_world))) =
     Some [(Text ''2021onca123'', Text ''fraud''), (Text ''2021onca123'', Text ''negligence''),
           (Text ''2021onca123'', Text ''appeal'')]
   \<and> keywords_table (db (snd (insert_data fraud_record False
        (snd (insert_data fraud_record False initialised_world))))) =
     Some [(Text ''2021onca123'', Text ''fraud''), (Text ''2021onca123'', Text ''negligence''),
           (Text ''2021onca123'', Text ''appeal''), (Text ''2021onca123'', Text ''fraud''),
           (Text ''2021onca123'', Text ''negligence''), (Text ''2021onca123'', Text ''appeal'')]
   \<and> categories_table (db (snd (insert_data fraud_record False initialised_world))) =
     Some [(Text ''2021onca123'', Text ''criminal''), (Text ''2021onca123'', Text ''evidence'')]
   \<and> categories_table (db (snd (insert_data fraud_record False
        (snd (insert_data fraud_record False initialised_world))))) =
     Some [(Text ''2021onca123'', Text ''criminal''), (Text ''2021onca123'', Text ''evidence''),
           (Text ''2021onca123'', Text ''criminal''), (Text ''2021onca123'', Text ''evidence'')]"
  using once_world_eq twice_world_eq
  by (simp add: once_world_def twice_world_def)

theorem ignore_policy_keeps_row_witness:
  "fraud_record ''uid'' = Some (PyStr ''2021onca123'')
   \<and> results_table (db once_world) = Some [row_of fraud_record]
   \<and> rows_with_uid ''2021onca123'' [row_of fraud_record] \<noteq> []
   \<and> length (rows_with_uid ''2021onca123'' [row_of fraud_record]) \<le> 1
   \<and> fst (insert_data fraud_record False once_world) = Inr ()
   \<and> results_table (db twice_world) = Some [row_of fraud_record]
   \<and> results_table (db (snd (insert_data fraud_record False twice_world)))
       = results_table (db twice_world)"
proof -
  have a: "fraud_record ''uid'' = Some (PyStr ''2021onca123'')" by (rule record_uids)
  have b: "results_table (db once_world) = Some [row_of fraud_record]"
    by (simp add: once_world_eq)
  have t: "keywords_table (db once_world) = Some [(Text ''2021onca123'', Text ''fraud''),
       (Text ''2021onca123'', Text ''negligence''), (Text ''2021onca123'', Text ''appeal'')]"
    "categories_table (db once_world) = Some [(Text ''2021onca123'', Text ''criminal''),
       (Text ''2021onca123'', Text ''evidence'')]"
    by (simp_all add: once_world_eq)
  note v = insert_data_value [OF fraud_record_present b t, of False]
  have c: "insert_data fraud_record False once_world = (Inr (), twice_world)"
    unfolding twice_world_def v by simp
  obtain out2 w2 where d: "insert_data fraud_record False twice_world = (out2, w2)"
    by (cases "insert_data fraud_record False twice_world")
  have e: "rows_with_uid ''2021onca123'' [row_of fraud_record] = [row_of fraud_record]"
    by (rule rows_with_uid_row_of [where data = fraud_record, OF a])
  from ignore_policy_keeps_row [where data = fraud_record, OF a b c d] a b c d e
  show ?thesis by simp
qed

theorem update_policy_full_replace_witness:
  "scalar_record ''uid'' = Some (PyStr ''2021onca123'')
   \<and> revised_record ''uid'' = Some (PyStr ''2021onca123'')
   \<and> fst (insert_data scalar_record True initialised_world) = Inr ()
   \<and> fst (insert_data revised_record True (snd (insert_data scalar_record True initialised_world)))
       = Inr ()
   \<and> results_table (db (snd (insert_data revised_record True
          (snd (insert_data scalar_record True initialised_world)))))
       = Some [row_of revised_record]
   \<and> column (row_of revised_record) ''year'' = Text ''2022''
   \<and> column (row_of revised_record) ''court'' = Null"
proof -
  have t: "results_table (db initialised_world) = Some []"
    "keywords_table (db initialised_world) = Some []"
    "categories_table (db initialised_world) = Some []"
    by (simp_all add: initialised_world_eq)
  note v1 = insert_data_value [OF scalar_record_present t, of True]
  obtain w1 where w1: "insert_data scalar_record True initialised_world = (Inr (), w1)"
    using v1 by simp
  have t1: "results_table (db w1) = Some [row_of scalar_record]"
    "keywords_table (db w1) = Some []" "categories_table (db w1) = Some []"
    using w1 unfolding v1
    by (auto simp: scalar_record_tokens insert_or_update_rows_def)
  note v2 = insert_data_value [OF revised_record_present t1, of True]
  obtain w2 where w2: "insert_data revised_record True w1 = (Inr (), w2)"
    using v2 by simp
  from update_policy_full_replace [where A = scalar_record and B = revised_record,
      OF record_uids(1) record_uids(3) w1 w2, THEN conjunct1]
  obtain rows0 rows1 rows2 where
    r: "results_table (db initialised_world) = Some rows0" "results_table (db w1) = Some rows1"
      "results_table (db w2) = Some rows2"
      "set (rows_with_uid ''2021onca123'' rows2) = {row_of revised_record}"
      "length (rows_with_uid ''2021onca123'' rows2)
         = max 1 (length (rows_with_uid ''2021onca123'' rows0))"
      "rows_with_uid ''2021onca123'' rows0 = [] \<longrightarrow> rows1 = rows0 @ [row_of scalar_record]"
    by blast
  from r(1) t(1) have rows0: "rows0 = []" by simp
  from r(2) t1(1) have rows1: "rows1 = [row_of scalar_record]" by simp
  have u: "rows_with_uid ''2021onca123'' [row_of scalar_record] = [row_of scalar_record]"
    by (rule rows_with_uid_row_of [where data = scalar_record, OF record_uids(1)])
  have rows2: "rows2 = [row_of revised_record]"
    using r(3) w2 unfolding v2
    by (auto simp: t1 insert_or_update_rows_uid [where data = revised_record, OF record_uids(3)]
        u column_row_of_uid [where data = scalar_record, OF record_uids(1)])
  have cols: "column (row_of revised_record) ''year'' = Text ''2022''"
    "column (row_of revised_record) ''court'' = Null"
    by (simp_all add: column_row_of result_columns_def revised_record_def)
  from w1 w2 r(3) rows2 cols record_uids show ?thesis by simp
qed

lemma changed_record_present: "\<forall>k \<in> set param_keys. changed_record k \<noteq> None"
  by (simp add: param_keys_def changed_record_def)

lemma changed_record_uid: "changed_record ''uid'' = Some (PyStr ''2021onca123'')"
  by (simp add: changed_record_def)

lemma changed_record_tokens:
  "tokens (changed_record ''keywords'') = []" "tokens (changed_record ''categories'') = []"
  by (simp_all add: changed_record_def)

lemma update_twice_value:
  "results_table (db (snd (insert_data changed_record True
      (snd (insert_data scalar_record True initialised_world))))) = Some [row_of changed_record]"
proof -
  have t: "results_table (db initialised_world) = Some []"
    "keywords_table (db initialised_world) = Some []"
    "categories_table (db initialised_world) = Some []"
    by (simp_all add: initialised_world_eq)
  note v1 = insert_data_value [OF scalar_record_present t, of True]
  let ?w1 = "snd (insert_data scalar_record True initialised_world)"
  have t1: "results_table (db ?w1) = Some [row_of scalar_record]"
    "keywords_table (db ?w1) = Some []" "categories_table (db ?w1) = Some []"
    unfolding v1 by (simp_all add: scalar_record_tokens insert_or_update_rows_def)
  note v2 = insert_data_value [OF changed_record_present t1, of True]
  have u: "rows_with_uid ''2021onca123'' [row_of scalar_record] = [row_of scalar_record]"
    by (rule rows_with_uid_row_of [where data = scalar_record, OF record_uids(1)])
  show ?thesis
    unfolding v2
    by (simp add: insert_or_update_rows_uid [where data = changed_record, OF changed_record_uid]
        u column_row_of_uid [where data = scalar_record, OF record_uids(1)])
qed

text \<open>
  Claim C3 as stated counts fourteen scalar fields. Writing a record and then, under
  Update, a record of the same \<^verbatim>\<open>uid\<close> that differs from it in every other field leaves
  one row, the second record's, and the columns in which it differs from the first
  record's row are the fifteen of the \<^verbatim>\<open>SET\<close> list.
\<close>

theorem fifteen_fields_replaced_counterexample:
  "results_table (db (snd (insert_data changed_record True
      (snd (insert_data scalar_record True initialised_world))))) = Some [row_of changed_record]
   \<and> differing_columns (row_of changed_record) (row_of scalar_record) = update_columns
   \<and> length update_columns = 15"
  by (simp add: update_twice_value)
    (simp add: differing_columns_def column_row_of result_columns_def update_columns_def
      changed_record_def scalar_record_def)

theorem schema_init_repeatable_witness:
  "fst (create_citation_database (create_times (Suc 0) once_world)) = Inr ()
   \<and> results_table (db (create_times (Suc (Suc 0)) once_world)) = Some [row_of fraud_record]
   \<and> results_table (db (create_times (Suc 0) fresh_world)) = Some []"
  using schema_init_repeatable [of "Suc 0" once_world] schema_init_repeatable [of 0 fresh_world]
  by (simp add: once_world_eq fresh_world_def table_rows_def del: create_times.simps)

theorem connection_closed_on_return_only_witness:
  "fst (insert_data scalar_record False initialised_world) = Inr ()
   \<and> open_connections (snd (insert_data scalar_record False initialised_world))
       = open_connections initialised_world
   \<and> fst (insert_data scalar_record False fresh_world)
       = Inl (OperationalError ''no such table: results'')
   \<and> open_connections (snd (insert_data scalar_record False fresh_world))
       = open_connections fresh_world + 1"
proof -
  have t: "results_table (db initialised_world) = Some []"
    "keywords_table (db initialised_world) = Some []"
    "categories_table (db initialised_world) = Some []"
    by (simp_all add: initialised_world_eq)
  have a: "fst (insert_data scalar_record False initialised_world) = Inr ()"
    by (simp add: insert_data_value [OF scalar_record_present t])
  have b: "fst (insert_data scalar_record False fresh_world)
       = Inl (OperationalError ''no such table: results'')"
    by (simp add: insert_data_eq insert_statements_def fresh_world_def bind_exn_def
        insert_results_row_present [OF scalar_record_present] no_such_table_def)
  from connection_closed_on_return_only [of scalar_record False initialised_world]
    connection_closed_on_return_only [of scalar_record False fresh_world] a b
  show ?thesis by simp
qed

theorem required_and_optional_keys_witness:
  "(\<exists>k \<in> set param_keys. yearless_record k = None)
   \<and> fst (insert_data yearless_record False initialised_world) = Inl (KeyError ''year'')
   \<and> db (snd (insert_data yearless_record False initialised_world)) = db initialised_world
   \<and> list_all (\<lambda>k. scalar_record k \<noteq> None) param_keys
   \<and> \<not> truthy (scalar_record ''keywords'') \<and> \<not> truthy (scalar_record ''categories'')
   \<and> fst (insert_data scalar_record False initialised_world) = Inr ()
   \<and> keywords_table (db (snd (insert_data scalar_record False initialised_world))) = Some []
   \<and> categories_table (db (snd (insert_data scalar_record False initialised_world))) = Some []"
proof -
  have m: "\<exists>k \<in> set param_keys. yearless_record k = None"
    by (simp add: param_keys_def yearless_record_def)
  have only: "\<And>k. k \<in> set param_keys \<Longrightarrow> yearless_record k = None \<Longrightarrow> k = ''year''"
    by (auto simp: param_keys_def yearless_record_def scalar_record_def split: if_splits)
  have f: "\<not> truthy (scalar_record ''keywords'')" "\<not> truthy (scalar_record ''categories'')"
    by (simp_all add: scalar_record_def)
  have t: "results_table (db initialised_world) = Some []"
    "keywords_table (db initialised_world) = Some []"
    "categories_table (db initialised_world) = Some []"
    by (simp_all add: initialised_world_eq)
  note r1 = required_and_optional_keys [of yearless_record False initialised_world,
      THEN conjunct1, THEN mp, OF m]
  note r2 = required_and_optional_keys [of scalar_record False initialised_world,
      THEN conjunct2, THEN mp, OF scalar_record_present]
  from r1 only have e: "fst (insert_data yearless_record False initialised_world)
      = Inl (KeyError ''year'')" by auto
  from r1 have d: "db (snd (insert_data yearless_record False initialised_world))
      = db initialised_world" by simp
  from r2 t f have s: "fst (insert_data scalar_record False initialised_world) = Inr ()"
    "keywords_table (db (snd (insert_data scalar_record False initialised_world))) = Some []"
    "categories_table (db (snd (insert_data scalar_record False initialised_world))) = Some []"
    by simp_all
  have p: "list_all (\<lambda>k. scalar_record k \<noteq> None) param_keys"
    using scalar_record_present by (simp add: list_all_iff)
  from m e d p f s show ?thesis by blast
qed

end
